theory Spec2Isabelle
  imports Main "HOL-Library.AList"
begin

section \<open>Strings, characters and errors of the JavaScript runtime\<close>

text \<open>
  A source string is a \<open>string\<close>: one \<open>char\<close> stands for one UTF-16 code unit
  below 256, so \<open>length\<close> is JavaScript's \<open>.length\<close> on such strings. The
  characters that cannot be written inside an Isabelle string literal are named here.
\<close>

definition bsl :: char where "bsl = CHR 0x5C"
definition dq :: char where "dq = CHR 0x22"
definition sq :: char where "sq = CHR 0x27"
definition nl :: char where "nl = CHR 0x0A"

definition code_unit :: "char \<Rightarrow> nat" where
  "code_unit c = of_char c"

text \<open>
  \<open>WhiteSpace\<close> and \<open>LineTerminator\<close> of ECMAScript, restricted to code units below
  256: TAB, LF, VT, FF, CR, SP and NBSP. This is what \<open>\s\<close> matches and what
  \<open>String.prototype.trim\<close> strips.
\<close>

definition is_space :: "char \<Rightarrow> bool" where
  "is_space c = (code_unit c \<in> {9, 10, 11, 12, 13, 32, 160})"

definition is_line_terminator :: "char \<Rightarrow> bool" where
  "is_line_terminator c = (code_unit c \<in> {10, 13})"

definition is_upper :: "char \<Rightarrow> bool" where
  "is_upper c = (65 \<le> code_unit c \<and> code_unit c \<le> 90)"

definition is_lower :: "char \<Rightarrow> bool" where
  "is_lower c = (97 \<le> code_unit c \<and> code_unit c \<le> 122)"

definition is_digit :: "char \<Rightarrow> bool" where
  "is_digit c = (48 \<le> code_unit c \<and> code_unit c \<le> 57)"

definition is_word :: "char \<Rightarrow> bool" where
  "is_word c = (is_upper c \<or> is_lower c \<or> is_digit c \<or> c = CHR ''_'')"

text \<open>
  \<open>Canonicalize\<close> of a pattern without the \<open>u\<close> flag: the upper-case code unit, and
  a code unit of 128 or more never folds onto an ASCII one.
\<close>

definition canonicalize :: "char \<Rightarrow> nat" where
  "canonicalize c = (if is_lower c then code_unit c - 32 else code_unit c)"

definition trim :: "string \<Rightarrow> string" where
  "trim s = rev (dropWhile is_space (rev (dropWhile is_space s)))"

fun starts_with :: "string \<Rightarrow> string \<Rightarrow> bool" where
  "starts_with s [] = True"
| "starts_with [] (p # ps) = False"
| "starts_with (c # cs) (p # ps) = (c = p \<and> starts_with cs ps)"

fun str_includes :: "string \<Rightarrow> string \<Rightarrow> bool" where
  "str_includes [] t = (t = [])"
| "str_includes (c # cs) t = (starts_with (c # cs) t \<or> str_includes cs t)"

fun split_on :: "char \<Rightarrow> string \<Rightarrow> string \<Rightarrow> string list" where
  "split_on d cur [] = [rev cur]"
| "split_on d cur (c # cs) =
     (if c = d then rev cur # split_on d [] cs else split_on d (c # cur) cs)"

definition split_lines :: "string \<Rightarrow> string list" where
  "split_lines s = split_on nl [] s"

definition digit_char :: "nat \<Rightarrow> char" where
  "digit_char d = ''0123456789abcdef'' ! d"

fun to_radix :: "nat \<Rightarrow> nat \<Rightarrow> string" where
  "to_radix b n =
     (if b < 2 \<or> n < b then [digit_char n] else to_radix b (n div b) @ [digit_char (n mod b)])"

definition show_nat :: "nat \<Rightarrow> string" where
  "show_nat n = to_radix 10 n"

text \<open>A thrown value: the error's \<open>name\<close> and its \<open>message\<close>.\<close>

datatype js_error = JsError string string

definition mkError :: "string \<Rightarrow> js_error" where
  "mkError msg = JsError ''Error'' msg"

fun message :: "js_error \<Rightarrow> string" where
  "message (JsError n msg) = msg"

fun error_to_string :: "js_error \<Rightarrow> string" where
  "error_to_string (JsError n msg) = (if msg = [] then n else n @ '': '' @ msg)"

section \<open>Regular expressions\<close>

text \<open>
  The patterns of the source are written as syntax trees and matched by backtracking in
  the order of ECMAScript: a greedy quantifier tries the longer match first, a lazy one
  the shorter, an alternative the left branch first. Every quantifier of the source
  stands on a single character class, an optional group or an optional character, which
  is all the tree offers. \<open>ChI\<close> is a literal under the \<open>i\<close> flag.
\<close>

datatype cls = Ch char | ChI char | Space | Word | Dot | AnyCh
  | OneOf "char list" | NoneOf "char list" | Upper | AlNum

fun cls_match :: "cls \<Rightarrow> char \<Rightarrow> bool" where
  "cls_match (Ch a) c = (c = a)"
| "cls_match (ChI a) c = (canonicalize c = canonicalize a)"
| "cls_match Space c = is_space c"
| "cls_match Word c = is_word c"
| "cls_match Dot c = (\<not> is_line_terminator c)"
| "cls_match AnyCh c = True"
| "cls_match (OneOf cs) c = (c \<in> set cs)"
| "cls_match (NoneOf cs) c = (c \<notin> set cs)"
| "cls_match Upper c = is_upper c"
| "cls_match AlNum c = (is_upper c \<or> is_lower c \<or> is_digit c)"

text \<open>
  \<open>Grp\<close> is a capturing group; \<open>Mark s\<close> closes a group that was opened when the
  input left was \<open>s\<close>. \<open>Bol\<close> and \<open>Eos\<close> are \<open>^\<close> and \<open>$\<close> without the
  \<open>m\<close> flag, \<open>EolM\<close> is \<open>$\<close> with it, \<open>Bnd\<close> is \<open>\b\<close>.
\<close>

datatype re = One cls | Star cls | Plus cls | Lazy cls
  | Opt "re list" | Alt "re list" "re list" | Grp "re list" | Mark string
  | Bol | Eos | EolM | Bnd

fun re_size :: "re \<Rightarrow> nat" and res_size :: "re list \<Rightarrow> nat" where
  "re_size (Opt g) = Suc (res_size g)"
| "re_size (Alt a b) = Suc (res_size a + res_size b)"
| "re_size (Grp g) = Suc (Suc (res_size g))"
| "re_size (Plus c) = 2"
| "re_size (One c) = 1"
| "re_size (Star c) = 1"
| "re_size (Lazy c) = 1"
| "re_size (Mark s) = 1"
| "re_size Bol = 1"
| "re_size Eos = 1"
| "re_size EolM = 1"
| "re_size Bnd = 1"
| "res_size [] = 0"
| "res_size (r # rs) = re_size r + res_size rs"

lemma res_size_append [simp]: "res_size (xs @ ys) = res_size xs + res_size ys"
  by (induction xs) auto

definition at_word :: "char option \<Rightarrow> bool" where
  "at_word p = (case p of None \<Rightarrow> False | Some c \<Rightarrow> is_word c)"

definition next_char :: "string \<Rightarrow> char option" where
  "next_char s = (case s of [] \<Rightarrow> None | c # cs \<Rightarrow> Some c)"

text \<open>
  \<open>m rs p s caps\<close> matches the sequence \<open>rs\<close> at the start of \<open>s\<close>, where \<open>p\<close> is
  the character before \<open>s\<close> (none at the start of the input) and \<open>caps\<close> the captures
  made so far: the first match in backtracking order, as the captures and the input
  left after it.
\<close>

function m :: "re list \<Rightarrow> char option \<Rightarrow> string \<Rightarrow> string list \<Rightarrow> (string list \<times> string) option" where
  "m [] p s caps = Some (caps, s)"
| "m (One c # rs) p [] caps = None"
| "m (One c # rs) p (x # xs) caps = (if cls_match c x then m rs (Some x) xs caps else None)"
| "m (Star c # rs) p [] caps = m rs p [] caps"
| "m (Star c # rs) p (x # xs) caps =
     (if cls_match c x
      then (case m (Star c # rs) (Some x) xs caps of
              Some r \<Rightarrow> Some r
            | None \<Rightarrow> m rs p (x # xs) caps)
      else m rs p (x # xs) caps)"
| "m (Plus c # rs) p [] caps = None"
| "m (Plus c # rs) p (x # xs) caps =
     (if cls_match c x then m (Star c # rs) (Some x) xs caps else None)"
| "m (Lazy c # rs) p [] caps = m rs p [] caps"
| "m (Lazy c # rs) p (x # xs) caps =
     (case m rs p (x # xs) caps of
        Some r \<Rightarrow> Some r
      | None \<Rightarrow> (if cls_match c x then m (Lazy c # rs) (Some x) xs caps else None))"
| "m (Opt g # rs) p s caps =
     (case m (g @ rs) p s caps of Some r \<Rightarrow> Some r | None \<Rightarrow> m rs p s caps)"
| "m (Alt a b # rs) p s caps =
     (case m (a @ rs) p s caps of Some r \<Rightarrow> Some r | None \<Rightarrow> m (b @ rs) p s caps)"
| "m (Grp g # rs) p s caps = m (g @ Mark s # rs) p s caps"
| "m (Mark s0 # rs) p s caps = m rs p s (caps @ [take (length s0 - length s) s0])"
| "m (Bol # rs) p s caps = (if p = None then m rs p s caps else None)"
| "m (Eos # rs) p s caps = (if s = [] then m rs p s caps else None)"
| "m (EolM # rs) p s caps =
     (if s = [] \<or> is_line_terminator (hd s) then m rs p s caps else None)"
| "m (Bnd # rs) p s caps =
     (if at_word p \<noteq> at_word (next_char s) then m rs p s caps else None)"
  by pat_completeness auto
termination
  by (relation "measures [\<lambda>(rs, p, s, caps). length s, \<lambda>(rs, p, s, caps). res_size rs]") auto

definition lit :: "string \<Rightarrow> re list" where
  "lit s = map (\<lambda>c. One (Ch c)) s"

definition liti :: "string \<Rightarrow> re list" where
  "liti s = map (\<lambda>c. One (ChI c)) s"

text \<open>
  The search of \<open>RegExpBuiltinExec\<close>: the leftmost position at or after \<open>i\<close> where the
  pattern matches, as start index, end index and captures.
\<close>

fun find_match :: "re list \<Rightarrow> char option \<Rightarrow> string \<Rightarrow> nat \<Rightarrow> (nat \<times> nat \<times> string list) option" where
  "find_match rs p s i =
     (case m rs p s [] of
        Some (caps, rest) \<Rightarrow> Some (i, i + (length s - length rest), caps)
      | None \<Rightarrow> (case s of [] \<Rightarrow> None | x # xs \<Rightarrow> find_match rs (Some x) xs (Suc i)))"

definition prev_char :: "string \<Rightarrow> nat \<Rightarrow> char option" where
  "prev_char s i = (if i = 0 then None else Some (s ! (i - 1)))"

definition regexp_exec :: "re list \<Rightarrow> string \<Rightarrow> nat \<Rightarrow> (nat \<times> nat \<times> string list) option" where
  "regexp_exec rs s lastIndex =
     (if lastIndex > length s then None
      else find_match rs (prev_char s lastIndex) (drop lastIndex s) lastIndex)"

text \<open>\<open>test\<close> on a pattern without the \<open>g\<close> flag: always from index 0, no state.\<close>

definition test :: "re list \<Rightarrow> string \<Rightarrow> bool" where
  "test rs s = (regexp_exec rs s 0 \<noteq> None)"

text \<open>
  \<open>test\<close> on a pattern with the \<open>g\<close> flag: the search starts at the pattern's
  \<open>lastIndex\<close>, which is set to the end of the match, or to 0 when there is none.
\<close>

definition test_global :: "re list \<Rightarrow> string \<Rightarrow> nat \<Rightarrow> bool \<times> nat" where
  "test_global rs s lastIndex =
     (case regexp_exec rs s lastIndex of
        None \<Rightarrow> (False, 0)
      | Some (i, e, caps) \<Rightarrow> (True, e))"

text \<open>A match never leaves more input than it was given, and the search moves forward.\<close>

lemma m_length: "m rs p s caps = Some (c, r) \<Longrightarrow> length r \<le> length s"
proof (induction rs p s caps arbitrary: c r rule: m.induct)
  case (10 g rs p s caps)
  show ?case
  proof (cases "m (g @ rs) p s caps")
    case None
    with "10.prems" have "m rs p s caps = Some (c, r)" by (simp only: m.simps option.case)
    with None show ?thesis by (rule "10.IH"(2))
  next
    case (Some a)
    with "10.prems" have "m (g @ rs) p s caps = Some (c, r)" by (simp only: m.simps option.case)
    then show ?thesis by (rule "10.IH"(1))
  qed
next
  case (11 a b rs p s caps)
  show ?case
  proof (cases "m (a @ rs) p s caps")
    case None
    with "11.prems" have "m (b @ rs) p s caps = Some (c, r)" by (simp only: m.simps option.case)
    with None show ?thesis by (rule "11.IH"(2))
  next
    case (Some x)
    with "11.prems" have "m (a @ rs) p s caps = Some (c, r)" by (simp only: m.simps option.case)
    then show ?thesis by (rule "11.IH"(1))
  qed
next
  case (12 g rs p s caps)
  from "12.prems" have "m (g @ Mark s # rs) p s caps = Some (c, r)" by (simp only: m.simps)
  then show ?case by (rule "12.IH")
next
  case (13 s0 rs p s caps)
  from "13.prems" have "m rs p s (caps @ [take (length s0 - length s) s0]) = Some (c, r)"
    by (simp only: m.simps)
  then show ?case by (rule "13.IH")
qed (simp_all split: if_splits option.splits add: le_SucI)

declare find_match.simps [simp del]

lemma find_match_bounds:
  "find_match rs p s i0 = Some (i, e, caps) \<Longrightarrow> i0 \<le> i \<and> i \<le> e"
proof (induction s arbitrary: p i0)
  case Nil
  then show ?case
    by (subst (asm) find_match.simps) (auto split: option.splits)
next
  case (Cons x xs)
  from Cons.prems show ?case
    by (subst (asm) find_match.simps) (auto split: option.splits dest: Cons.IH)
qed

lemma regexp_exec_bounds:
  "regexp_exec rs s li = Some (i, e, caps) \<Longrightarrow> li \<le> i \<and> i \<le> e \<and> li \<le> length s"
  by (auto simp: regexp_exec_def dest: find_match_bounds split: if_splits)

text \<open>
  All matches of a pattern with the \<open>g\<close> flag, as \<open>String.prototype.match\<close> and
  \<open>matchAll\<close> collect them: after an empty match the search moves on by one.
\<close>

function match_all :: "re list \<Rightarrow> string \<Rightarrow> nat \<Rightarrow> (nat \<times> nat \<times> string list) list" where
  "match_all rs s lastIndex =
     (case regexp_exec rs s lastIndex of
        None \<Rightarrow> []
      | Some (i, e, caps) \<Rightarrow> (i, e, caps) # match_all rs s (if e = i then Suc e else e))"
  by pat_completeness auto
termination
proof (relation "measure (\<lambda>(rs, s, li). Suc (length s) - li)")
  show "wf (measure (\<lambda>(rs, s, li). Suc (length s) - li))" by simp
next
  fix rs s lastIndex x2 i y e caps
  assume "regexp_exec rs s lastIndex = Some x2" "(i, y) = x2" "(e, caps) = y"
  then have "regexp_exec rs s lastIndex = Some (i, e, caps)" by simp
  from regexp_exec_bounds [OF this]
  show "((rs, s, if e = i then Suc e else e), rs, s, lastIndex)
          \<in> measure (\<lambda>(rs, s, li). Suc (length s) - li)"
    by auto
qed

declare match_all.simps [simp del]

section \<open>The runtime compiler\<close>

text \<open>
  The browser's store of object URLs: \<open>URL.createObjectURL\<close> hands out a URL that
  was never used before and keeps the blob's text under it until
  \<open>URL.revokeObjectURL\<close>. A URL is \<open>blob:\<close> followed by a serial number.
\<close>

record blob_store =
  next_blob :: nat
  live_blobs :: "(string \<times> string) list"

definition no_blobs :: blob_store where
  "no_blobs = \<lparr>next_blob = 0, live_blobs = []\<rparr>"

definition createObjectURL :: "blob_store \<Rightarrow> string \<Rightarrow> string \<times> blob_store" where
  "createObjectURL bs text =
     (let url = ''blob:'' @ show_nat (next_blob bs)
      in (url, \<lparr>next_blob = Suc (next_blob bs),
                 live_blobs = AList.update url text (live_blobs bs)\<rparr>))"

definition revokeObjectURL :: "blob_store \<Rightarrow> string \<Rightarrow> blob_store" where
  "revokeObjectURL bs url = bs\<lparr>live_blobs := AList.delete url (live_blobs bs)\<rparr>"

definition is_live :: "blob_store \<Rightarrow> string \<Rightarrow> bool" where
  "is_live bs url = (map_of (live_blobs bs) url \<noteq> None)"

record CompilationResult =
  success :: bool
  compiled_code :: "string option"
  moduleUrl :: "string option"
  error :: "js_error option"
  compile_warnings :: "string list option"

definition compile_failure :: "js_error \<Rightarrow> CompilationResult" where
  "compile_failure e =
     \<lparr>success = False, compiled_code = None, moduleUrl = None, error = Some e, compile_warnings = None\<rparr>"

text \<open>The text of the module that \<open>createModuleBlob\<close> wraps around the compiled code.\<close>

definition moduleCode :: "string \<Rightarrow> string \<Rightarrow> string" where
  "moduleCode compiledCode componentName = concat
     [[nl], ''      // Generated panel module: '', componentName, [nl],
      ''      import React from '', [sq], ''react'', [sq], '';'', [nl],
      ''      import { jsx as _jsx, jsxs as _jsxs, Fragment as _Fragment } from '',
      [sq], ''react/jsx-runtime'', [sq], '';'', [nl],
      ''      '', [nl],
      ''      '', compiledCode, [nl],
      ''      '', [nl],
      ''      // Ensure the component is exported'', [nl],
      ''      const ComponentToExport = typeof '', componentName, '' !== '', [sq],
      ''undefined'', [sq], '' ? '', componentName, '' : '', [nl],
      ''                                typeof Component !== '', [sq], ''undefined'', [sq],
      '' ? Component :'', [nl],
      ''                                (() => React.createElement('', [sq], ''div'', [sq],
      '', { className: '', [sq], ''p-4 text-red-500'', [sq], '' }, '', [nl],
      ''                                  '', [sq],
      ''Error: No valid component found in generated code'', [sq], ''));'', [nl],
      ''      '', [nl],
      ''      export default ComponentToExport;'', [nl],
      ''      '', [nl],
      ''      // HMR support'', [nl],
      ''      if (import.meta.hot) {'', [nl],
      ''        import.meta.hot.accept();'', [nl],
      ''      }'', [nl],
      ''    '']"

definition createModuleBlob :: "blob_store \<Rightarrow> string \<Rightarrow> string \<Rightarrow> string \<times> blob_store" where
  "createModuleBlob bs compiledCode componentName =
     createObjectURL bs (moduleCode compiledCode componentName)"

text \<open>
  \<open>transform\<close> is \<open>Babel.transform\<close> with the compiler's options: it throws, or returns
  the generated code (the empty string when it generated none). Whatever is thrown
  inside \<open>compileComponent\<close> is caught there and returned as a failure.
\<close>

definition compileComponent ::
    "(string \<Rightarrow> js_error + string) \<Rightarrow> blob_store \<Rightarrow> string \<Rightarrow> string \<Rightarrow> CompilationResult \<times> blob_store" where
  "compileComponent transform bs jsxCode componentName =
     (if trim jsxCode = [] then (compile_failure (mkError ''JSX code cannot be empty''), bs)
      else case transform jsxCode of
        Inl e \<Rightarrow> (compile_failure e, bs)
      | Inr generated \<Rightarrow>
          if generated = []
          then (compile_failure (mkError ''Compilation failed: no code generated''), bs)
          else (let (url, bs') = createModuleBlob bs generated componentName
                in (\<lparr>success = True, compiled_code = Some generated, moduleUrl = Some url,
                     error = None, compile_warnings = Some []\<rparr>, bs')))"

definition cleanupModuleUrl :: "blob_store \<Rightarrow> string \<Rightarrow> blob_store" where
  "cleanupModuleUrl bs url = (if starts_with url ''blob:'' then revokeObjectURL bs url else bs)"

text \<open>
  The compiler's inspection of a source: the component's name, by three patterns tried
  in order, and the import targets, every one in source order.
\<close>

definition functionName_re :: "re list" where
  "functionName_re =
     [Alt (lit ''function'') [Alt (lit ''const'') [Alt (lit ''let'') (lit ''var'')]],
      Plus Space, Grp [One Upper, Star AlNum]]"

definition arrowName_re :: "re list" where
  "arrowName_re =
     [Alt (lit ''const'') [Alt (lit ''let'') (lit ''var'')],
      Plus Space, Grp [One Upper, Star AlNum], Star Space, One (Ch (CHR ''=''))]"

definition exportName_re :: "re list" where
  "exportName_re =
     lit ''export'' @ [Plus Space] @ lit ''default'' @ [Plus Space, Grp [One Upper, Star AlNum]]"

definition first_capture :: "re list \<Rightarrow> string \<Rightarrow> string option" where
  "first_capture rs s =
     (case regexp_exec rs s 0 of
        None \<Rightarrow> None
      | Some (i, e, caps) \<Rightarrow> (case caps of [] \<Rightarrow> None | c # cs \<Rightarrow> Some c))"

definition extractComponentName :: "string \<Rightarrow> string" where
  "extractComponentName jsxCode =
     (case first_capture functionName_re jsxCode of
        Some n \<Rightarrow> n
      | None \<Rightarrow>
          (case first_capture arrowName_re jsxCode of
             Some n \<Rightarrow> n
           | None \<Rightarrow>
               (case first_capture exportName_re jsxCode of
                  Some n \<Rightarrow> n
                | None \<Rightarrow> ''Component'')))"

definition dependency_re :: "re list" where
  "dependency_re =
     lit ''import'' @ [Plus Space, Lazy Dot, Plus Space] @ lit ''from''
       @ [Plus Space, One (OneOf [sq, dq]), Grp [Plus (NoneOf [sq, dq])], One (OneOf [sq, dq])]"

definition extractDependencies :: "string \<Rightarrow> string list" where
  "extractDependencies jsxCode =
     concat (map (\<lambda>(i, e, caps). take 1 caps) (match_all dependency_re jsxCode 0))"

section \<open>Identities of generated panels\<close>

text \<open>
  \<open>ToInt32\<close>, which \<open><<\<close> and \<open>&\<close> apply to their operands; the subtraction and the
  addition in between are exact.
\<close>

definition to_int32 :: "int \<Rightarrow> int" where
  "to_int32 x = (x + 2147483648) mod 4294967296 - 2147483648"

definition hash_step :: "int \<Rightarrow> char \<Rightarrow> int" where
  "hash_step h c = to_int32 ((to_int32 (h * 32) - h) + int (code_unit c))"

definition simpleHash :: "string \<Rightarrow> string" where
  "simpleHash str = to_radix 16 (nat \<bar>foldl hash_step 0 str\<bar>)"

text \<open>\<open>timestamp\<close> is what \<open>Date.now()\<close> returns when the identity is made.\<close>

definition generatePanelId :: "string \<Rightarrow> nat \<Rightarrow> string" where
  "generatePanelId prompt timestamp =
     ''ai-panel-'' @ simpleHash prompt @ ''-'' @ show_nat timestamp"

section \<open>The code validator\<close>

record SecurityValidationResult =
  isValid :: bool
  errors :: "string list"
  warnings :: "string list"
  sanitizedCode :: "string option"

definition allowedImports :: "string list" where
  "allowedImports = [''react'', ''react-dom'', ''react/jsx-runtime'', ''react-error-boundary'']"

text \<open>
  The deny-list: each pattern with its \<open>source\<close> text. All of them carry the flags
  \<open>gi\<close>, so each one keeps a \<open>lastIndex\<close> between the calls of \<open>test\<close>.
\<close>

definition forbiddenPatterns :: "(string \<times> re list) list" where
  "forbiddenPatterns =
     [(''eval'' @ [bsl] @ ''s*'' @ [bsl] @ ''('',
       liti ''eval'' @ [Star Space] @ liti ''(''),
      (''Function'' @ [bsl] @ ''s*'' @ [bsl] @ ''('',
       liti ''Function'' @ [Star Space] @ liti ''(''),
      (''document'' @ [bsl] @ ''.write'',
       liti ''document.write''),
      (''innerHTML'' @ [bsl] @ ''s*='',
       liti ''innerHTML'' @ [Star Space] @ liti ''=''),
      (''outerHTML'' @ [bsl] @ ''s*='',
       liti ''outerHTML'' @ [Star Space] @ liti ''=''),
      (''window'' @ [bsl] @ ''.parent'',
       liti ''window.parent''),
      (''window'' @ [bsl] @ ''.top'',
       liti ''window.top''),
      (''window'' @ [bsl] @ ''.frames'',
       liti ''window.frames''),
      (''parent'' @ [bsl] @ ''.'',
       liti ''parent.''),
      (''top'' @ [bsl] @ ''.'',
       liti ''top.''),
      ([bsl] @ ''.contentWindow'',
       liti ''.contentWindow''),
      (''postMessage'',
       liti ''postMessage''),
      (''fetch'' @ [bsl] @ ''s*'' @ [bsl] @ ''('',
       liti ''fetch'' @ [Star Space] @ liti ''(''),
      (''XMLHttpRequest'',
       liti ''XMLHttpRequest''),
      (''localStorage'',
       liti ''localStorage''),
      (''sessionStorage'',
       liti ''sessionStorage''),
      (''document'' @ [bsl] @ ''.cookie'',
       liti ''document.cookie''),
      (''<script['' @ [bsl] @ ''s'' @ [bsl] @ ''S]*?>'',
       liti ''<script'' @ [Lazy AnyCh] @ liti ''>''),
      (''<iframe['' @ [bsl] @ ''s'' @ [bsl] @ ''S]*?>'',
       liti ''<iframe'' @ [Lazy AnyCh] @ liti ''>''),
      (''<object['' @ [bsl] @ ''s'' @ [bsl] @ ''S]*?>'',
       liti ''<object'' @ [Lazy AnyCh] @ liti ''>''),
      (''<embed['' @ [bsl] @ ''s'' @ [bsl] @ ''S]*?>'',
       liti ''<embed'' @ [Lazy AnyCh] @ liti ''>''),
      (''<link['' @ [bsl] @ ''s'' @ [bsl] @ ''S]*?>'',
       liti ''<link'' @ [Lazy AnyCh] @ liti ''>''),
      (''<meta['' @ [bsl] @ ''s'' @ [bsl] @ ''S]*?>'',
       liti ''<meta'' @ [Lazy AnyCh] @ liti ''>''),
      (''javascript:'',
       liti ''javascript:''),
      (''data:text'' @ [bsl] @ ''/html'',
       liti ''data:text/html''),
      (''vbscript:'',
       liti ''vbscript:''),
      (''on'' @ [bsl] @ ''w+'' @ [bsl] @ ''s*='',
       liti ''on'' @ [Plus Word, Star Space] @ liti ''=''),
      (''setInterval'',
       liti ''setInterval''),
      (''setTimeout.*eval'',
       liti ''setTimeout'' @ [Star Dot] @ liti ''eval''),
      (''new'' @ [bsl] @ ''s+Function'',
       liti ''new'' @ [Plus Space] @ liti ''Function''),
      (''import'' @ [bsl] @ ''s*'' @ [bsl] @ ''('',
       liti ''import'' @ [Star Space] @ liti ''(''),
      (''require'' @ [bsl] @ ''s*'' @ [bsl] @ ''('',
       liti ''require'' @ [Star Space] @ liti ''(''),
      (''global'' @ [bsl] @ ''.'',
       liti ''global.''),
      (''process'' @ [bsl] @ ''.'',
       liti ''process.''),
      (''Buffer'' @ [bsl] @ ''.'',
       liti ''Buffer.''),
      (''__dirname'',
       liti ''__dirname''),
      (''__filename'',
       liti ''__filename'')]"

definition requiredPatterns :: "(string \<times> re list) list" where
  "requiredPatterns =
     [(''import'' @ [bsl] @ ''s+React'', lit ''import'' @ [Plus Space] @ lit ''React''),
      (''export'' @ [bsl] @ ''s+default'', lit ''export'' @ [Plus Space] @ lit ''default'')]"

text \<open>
  The state of a validator: the \<open>lastIndex\<close> of each pattern of the deny-list, in
  the order of the list (0 for a pattern the list does not reach). A new validator
  has them all at 0.
\<close>

type_synonym validator_state = "nat list"

definition new_validator :: validator_state where
  "new_validator = map (\<lambda>p. 0) forbiddenPatterns"

definition count_char :: "char \<Rightarrow> string \<Rightarrow> nat" where
  "count_char c s = length (filter (\<lambda>x. x = c) s)"

text \<open>
  The loop over the characters: the count, and whether the loop was left by
  \<open>break\<close> when the count went below zero.
\<close>

fun paren_scan :: "string \<Rightarrow> int \<Rightarrow> int \<times> bool" where
  "paren_scan [] n = (n, False)"
| "paren_scan (c # cs) n =
     (let n1 = (if c = CHR ''('' then n + 1 else n);
          n2 = (if c = CHR '')'' then n1 - 1 else n1)
      in if n2 < 0 then (n2, True) else paren_scan cs n2)"

definition validateBasicStructure :: "string \<Rightarrow> string list \<Rightarrow> string list" where
  "validateBasicStructure code errs =
     (let e1 = errs @ (if length (trim code) < 20
                       then [''Code is too short to be a valid component''] else []);
          e2 = e1 @ (if length code > 50000 then [''Code is too long (>50KB)''] else []);
          e3 = e2 @ concat (map (\<lambda>(src, rs). if test rs code then []
                                             else [''Missing required pattern: '' @ src])
                                requiredPatterns);
          e4 = e3 @ (if count_char (CHR ''{'') code = count_char (CHR ''}'') code then []
                     else [''Unbalanced braces in code'']);
          (parenCount, broke) = paren_scan code 0;
          e5 = e4 @ (if broke then [''Unbalanced parentheses in code''] else [])
      in e5 @ (if parenCount = 0 then [] else [''Unbalanced parentheses in code'']))"

fun check_patterns ::
    "(string \<times> re list) list \<Rightarrow> validator_state \<Rightarrow> string \<Rightarrow> string list
       \<Rightarrow> string list \<times> validator_state" where
  "check_patterns [] st code errs = (errs, [])"
| "check_patterns ((src, rs) # ps) st code errs =
     (let (found, lastIndex) = test_global rs code (case st of [] \<Rightarrow> 0 | l # ls \<Rightarrow> l);
          (errs', st') = check_patterns ps (tl st) code
                           (if found then errs @ [''Forbidden pattern detected: '' @ src]
                            else errs)
      in (errs', lastIndex # st'))"

definition checkForbiddenPatterns ::
    "validator_state \<Rightarrow> string \<Rightarrow> string list \<Rightarrow> string list \<times> validator_state" where
  "checkForbiddenPatterns st code errs = check_patterns forbiddenPatterns st code errs"

definition isImportAllowed :: "string \<Rightarrow> bool" where
  "isImportAllowed importPath =
     (importPath \<in> set allowedImports \<or> starts_with importPath ''react/'')"

definition importRegex :: "re list" where
  "importRegex =
     lit ''import'' @ [Plus Space, Lazy Dot, Plus Space] @ lit ''from''
       @ [Plus Space, One (OneOf [sq, dq]), Grp [Plus (NoneOf [sq, dq])], One (OneOf [sq, dq]),
          Opt [One (Ch (CHR '';''))]]"

lemma find_match_progress:
  "find_match (One c # rs) p s i0 = Some (i, e, caps) \<Longrightarrow> i < e"
proof (induction s arbitrary: p i0)
  case Nil
  then show ?case
    by (subst (asm) find_match.simps) (simp split: option.splits)
next
  case (Cons x xs)
  show ?case
  proof (cases "m (One c # rs) p (x # xs) []")
    case None
    with Cons.prems have "find_match (One c # rs) (Some x) xs (Suc i0) = Some (i, e, caps)"
      by (subst (asm) find_match.simps) simp
    then show ?thesis by (rule Cons.IH)
  next
    case (Some a)
    obtain cs rest where a: "a = (cs, rest)" by (cases a)
    from Some a have "m rs (Some x) xs [] = Some (cs, rest)"
      by (simp split: if_splits)
    then have "length rest \<le> length xs" by (rule m_length)
    moreover from Cons.prems Some a
    have "i = i0 \<and> e = i0 + (length (x # xs) - length rest)"
      by (subst (asm) find_match.simps) simp
    ultimately show ?thesis by simp
  qed
qed

lemma importRegex_progress:
  "regexp_exec importRegex code lastIndex = Some (i, e, caps) \<Longrightarrow> lastIndex < e"
proof -
  assume a: "regexp_exec importRegex code lastIndex = Some (i, e, caps)"
  have shape: "importRegex = One (Ch (CHR ''i'')) # tl importRegex"
    by (simp add: importRegex_def lit_def)
  from a have "lastIndex \<le> i" by (simp add: regexp_exec_bounds)
  moreover from a have "i < e"
    unfolding regexp_exec_def by (subst (asm) shape) (auto split: if_splits dest: find_match_progress)
  ultimately show ?thesis by simp
qed

text \<open>
  The \<open>while\<close> loop of \<open>validateImports\<close>: \<open>exec\<close> is called until it finds
  nothing, and each match starts the next search at its end. The paths captured, in
  order.
\<close>

function import_paths :: "string \<Rightarrow> nat \<Rightarrow> string list" where
  "import_paths code lastIndex =
     (case regexp_exec importRegex code lastIndex of
        None \<Rightarrow> []
      | Some (i, e, caps) \<Rightarrow> concat (take 1 caps) # import_paths code e)"
  by pat_completeness auto
termination
proof (relation "measure (\<lambda>(code, li). Suc (length code) - li)")
  show "wf (measure (\<lambda>(code, li). Suc (length code) - li))" by simp
next
  fix code lastIndex x2 i y e caps
  assume "regexp_exec importRegex code lastIndex = Some x2" "(i, y) = x2" "(e, caps) = y"
  then have a: "regexp_exec importRegex code lastIndex = Some (i, e, caps)" by simp
  from importRegex_progress [OF a] regexp_exec_bounds [OF a]
  show "((code, e), code, lastIndex) \<in> measure (\<lambda>(code, li). Suc (length code) - li)"
    by auto
qed

declare import_paths.simps [simp del]

definition validateImports ::
    "string \<Rightarrow> string list \<Rightarrow> string list \<Rightarrow> string list \<times> string list" where
  "validateImports code errs warns =
     (let paths = import_paths code 0
      in (errs @ concat (map (\<lambda>importPath. if isImportAllowed importPath then []
                                            else [''Unauthorized import: '' @ importPath])
                             paths),
          warns @ concat (map (\<lambda>importPath.
                                 if starts_with importPath ''./'' \<or> starts_with importPath ''../''
                                 then [''Relative import detected: '' @ importPath] else [])
                              paths)))"

definition functionComponent_re :: "re list" where
  "functionComponent_re =
     [Alt (lit ''function'' @ [Plus Space, Plus Word])
          (lit ''const'' @ [Plus Space, Plus Word, Star Space, One (Ch (CHR ''='')), Star Space,
             One (Ch (CHR ''('')), Star (NoneOf '')''), One (Ch (CHR '')'')), Star Space]
             @ lit ''=>'')]"

definition classComponent_re :: "re list" where
  "classComponent_re =
     lit ''class'' @ [Plus Space, Plus Word, Plus Space] @ lit ''extends''
       @ [Plus Space, Opt (lit ''React.'')] @ lit ''Component''"

definition componentName_re :: "re list" where
  "componentName_re =
     [Alt (lit ''function'' @ [Plus Space, Grp [Plus Word]])
          [Alt (lit ''const'' @ [Plus Space, Grp [Plus Word], Star Space, One (Ch (CHR ''=''))])
               (lit ''export'' @ [Plus Space] @ lit ''default'' @ [Plus Space, Grp [Plus Word]])]]"

definition pascalCase_re :: "re list" where
  "pascalCase_re = [Bol, One Upper, Star AlNum, Eos]"

definition validateComponentStructure ::
    "string \<Rightarrow> string list \<Rightarrow> string list \<Rightarrow> string list \<times> string list" where
  "validateComponentStructure code errs warns =
     (let hasFunctionComponent = test functionComponent_re code;
          hasClassComponent = test classComponent_re code;
          e1 = errs @ (if hasFunctionComponent \<or> hasClassComponent then []
                       else [''No valid React component definition found'']);
          w1 = warns @ (if hasClassComponent
                        then [''Class components detected - function components are preferred'']
                        else []);
          e2 = e1 @ (if str_includes code ''return'' \<and> str_includes code ''<'' then []
                     else [''Component must return JSX''])
      in (e2,
          w1 @ (case first_capture componentName_re code of
                  None \<Rightarrow> []
                | Some componentName \<Rightarrow>
                    if componentName = [] \<or> test pascalCase_re componentName then []
                    else [''Component name should be PascalCase: '' @ componentName])))"

definition hook_re :: "re list" where
  "hook_re = lit ''use'' @ [One Upper, Star Word]"

definition functionLine_re :: "re list" where
  "functionLine_re =
     [Alt (lit ''function'')
          (lit ''const'' @ [Plus Space, Plus Word, Star Space, One (Ch (CHR ''=''))])]"

definition inlineStyle_re :: "re list" where
  "inlineStyle_re = lit ''style'' @ [Star Space, One (Ch (CHR ''='')), Star Space] @ lit ''{{''"

definition mapCall_re :: "re list" where
  "mapCall_re = lit ''.map'' @ [Star Space] @ lit ''(''"

definition keyProp_re :: "re list" where
  "keyProp_re = lit ''<'' @ [Plus Word, Star (NoneOf ''>'')] @ lit ''key=''"

text \<open>The loop over the lines: whether it reached the warning (and the \<open>break\<close>).\<close>

fun hook_scan :: "string list \<Rightarrow> bool \<Rightarrow> int \<Rightarrow> bool" where
  "hook_scan [] inFunction braceCount = False"
| "hook_scan (line # ls) inFunction braceCount =
     (let inFunction' = (inFunction \<or> test functionLine_re line);
          braceCount' = braceCount + int (count_char (CHR ''{'') line)
                          - int (count_char (CHR ''}'') line)
      in if inFunction' \<and> braceCount' > 1 \<and> test hook_re line then True
         else hook_scan ls inFunction' braceCount')"

definition validateReactPatterns :: "string \<Rightarrow> string list \<Rightarrow> string list" where
  "validateReactPatterns code warns =
     (let w1 = warns @ (if match_all hook_re code 0 = [] then []
                        else if hook_scan (split_lines code) False 0
                        then [''Hooks should be called at the top level of components'']
                        else []);
          w2 = w1 @ (if test inlineStyle_re code
                     then [''Inline styles detected - prefer Tailwind CSS classes''] else [])
      in w2 @ (if test mapCall_re code \<and> \<not> test keyProp_re code
               then [''Missing key props in mapped elements''] else []))"

text \<open>
  The complexity estimate builds one pattern per keyword with
  \<open>new RegExp(`\\b${keyword}\\b`, 'g')\<close>. The table gives each keyword with the
  pattern that the constructor returns. For the last keyword the pattern text is
  \<open>\b?\b\<close>: a quantifier that follows the assertion \<open>\b\<close>. The grammar of
  ECMAScript quantifies atoms (and, without the \<open>u\<close> flag, lookaheads), not \<open>\b\<close>,
  so the constructor throws a \<open>SyntaxError\<close> ("Nothing to repeat"); there is no
  pattern for that keyword. The text of the message is the engine's, here V8's.
\<close>

definition complexityKeywords :: "(string \<times> re list option) list" where
  "complexityKeywords =
     [(''if'', Some ([Bnd] @ lit ''if'' @ [Bnd])),
      (''else'', Some ([Bnd] @ lit ''else'' @ [Bnd])),
      (''while'', Some ([Bnd] @ lit ''while'' @ [Bnd])),
      (''for'', Some ([Bnd] @ lit ''for'' @ [Bnd])),
      (''switch'', Some ([Bnd] @ lit ''switch'' @ [Bnd])),
      (''case'', Some ([Bnd] @ lit ''case'' @ [Bnd])),
      (''&&'', Some ([Bnd] @ lit ''&&'' @ [Bnd])),
      (''||'', Some [Alt [Bnd] [Alt [] [Bnd]]]),
      (''?'', None)]"

definition nothing_to_repeat :: "string \<Rightarrow> js_error" where
  "nothing_to_repeat keyword =
     JsError ''SyntaxError''
       (''Invalid regular expression: /'' @ [bsl] @ ''b'' @ keyword @ [bsl]
          @ ''b/g: Nothing to repeat'')"

fun complexity_loop :: "(string \<times> re list option) list \<Rightarrow> string \<Rightarrow> nat \<Rightarrow> js_error + nat" where
  "complexity_loop [] code complexity = Inr complexity"
| "complexity_loop ((keyword, None) # ks) code complexity = Inl (nothing_to_repeat keyword)"
| "complexity_loop ((keyword, Some regex) # ks) code complexity =
     complexity_loop ks code (complexity + length (match_all regex code 0))"

text \<open>The warnings as the function leaves them, and what it threw, if it threw.\<close>

definition validateSizeAndComplexity :: "string \<Rightarrow> string list \<Rightarrow> string list \<times> js_error option" where
  "validateSizeAndComplexity code warns =
     (let w1 = warns @ (if length (split_lines code) > 200
                        then [''Component is quite large - consider breaking it into smaller components'']
                        else [])
      in case complexity_loop complexityKeywords code 1 of
           Inl e \<Rightarrow> (w1, Some e)
         | Inr complexity \<Rightarrow>
             (w1 @ (if complexity > 20
                    then [''High cyclomatic complexity detected - consider simplifying logic'']
                    else []),
              None))"

text \<open>
  The sanitizer. \<open>exportMatch_re\<close> is the pattern that \<open>match\<close> is called with and
  \<open>exportReplace_re\<close> the one \<open>replace\<close> is called with: the same pattern without the
  group. Neither has the \<open>g\<close> flag, so the first match is replaced. The replacement
  text holds no \<open>$\<close>, since the name is made of word characters.
\<close>

definition exportMatch_re :: "re list" where
  "exportMatch_re =
     lit ''export'' @ [Plus Space] @ lit ''default''
       @ [Plus Space, Grp [Plus Word], Opt [One (Ch (CHR '';''))], EolM]"

definition exportReplace_re :: "re list" where
  "exportReplace_re =
     lit ''export'' @ [Plus Space] @ lit ''default''
       @ [Plus Space, Plus Word, Opt [One (Ch (CHR '';''))], EolM]"

definition replace_first :: "re list \<Rightarrow> string \<Rightarrow> string \<Rightarrow> string" where
  "replace_first rs s replacement =
     (case regexp_exec rs s 0 of
        None \<Rightarrow> s
      | Some (i, e, caps) \<Rightarrow> take i s @ replacement @ drop e s)"

definition wrapper :: "string \<Rightarrow> string" where
  "wrapper componentName = concat
     [''const Original'', componentName, '' = '', componentName,
      '';'',
      [nl],
      [nl],
      ''const SafeComponent = (props) => ('',
      [nl],
      ''  <ErrorBoundary'',
      [nl],
      ''    fallback={'',
      [nl],
      ''      <div className='', [dq],
      ''p-4 bg-red-50 border border-red-200 text-red-700 rounded-lg'', [dq], ''>'',
      [nl],
      ''        <h3 className='', [dq], ''font-medium mb-2'', [dq], ''>Component Error</h3>'',
      [nl],
      ''        <p className='', [dq], ''text-sm'', [dq],
      ''>This component failed to render safely.</p>'',
      [nl],
      ''      </div>'',
      [nl],
      ''    }'',
      [nl],
      ''    onError={(error) => console.error('', [sq], ''Panel component error:'', [sq],
      '', error)}'',
      [nl],
      ''  >'',
      [nl],
      ''    <'', ''Original'', componentName,
      '' {...props} />'',
      [nl],
      ''  </ErrorBoundary>'',
      [nl],
      '');'',
      [nl],
      [nl],
      ''export default SafeComponent;'']"

definition wrapWithErrorBoundary :: "string \<Rightarrow> string" where
  "wrapWithErrorBoundary code =
     (case first_capture exportMatch_re code of
        None \<Rightarrow> code
      | Some componentName \<Rightarrow> replace_first exportReplace_re code (wrapper componentName))"

definition safety_imports :: string where
  "safety_imports = concat
     [''import React from '', [sq], ''react'', [sq], '';'', [nl],
      ''import { ErrorBoundary } from '', [sq], ''react-error-boundary'', [sq], '';'', [nl], [nl]]"

definition sanitizeCode :: "string \<Rightarrow> string" where
  "sanitizeCode code =
     (let sanitized = wrapWithErrorBoundary code
      in if str_includes sanitized ''import { ErrorBoundary }'' then sanitized
         else safety_imports @ sanitized)"

text \<open>
  \<open>validateJSX\<close>, with the validator's state before and after. It is declared
  \<open>async\<close> but awaits nothing, so a call runs from start to end with nothing in
  between. Whatever is thrown inside the \<open>try\<close> block ends the call with the one
  error of the \<open>catch\<close> block and the warnings collected until then.
\<close>

definition validateJSX :: "validator_state \<Rightarrow> string \<Rightarrow> SecurityValidationResult \<times> validator_state" where
  "validateJSX st code =
     (let e1 = validateBasicStructure code [];
          (e2, st') = checkForbiddenPatterns st code e1;
          (e3, w1) = validateImports code e2 [];
          (e4, w2) = validateComponentStructure code e3 w1;
          w3 = validateReactPatterns code w2;
          (w4, thrown) = validateSizeAndComplexity code w3
      in case thrown of
           Some e \<Rightarrow>
             (\<lparr>isValid = False, errors = [''Validation error: '' @ error_to_string e],
               warnings = w4, sanitizedCode = None\<rparr>, st')
         | None \<Rightarrow>
             if e4 = []
             then (\<lparr>isValid = True, errors = [], warnings = w4,
                    sanitizedCode = Some (sanitizeCode code)\<rparr>, st')
             else (\<lparr>isValid = False, errors = e4, warnings = w4, sanitizedCode = None\<rparr>, st'))"

section \<open>The panel registry\<close>

text \<open>
  What lies outside the program: Babel, and the dynamic \<open>import\<close> of a module URL,
  which throws or yields the module's \<open>default\<close> export. \<open>NoDefault\<close> is a missing
  or falsy export, \<open>NotAFunction\<close> a truthy one that is no function, \<open>Component c\<close>
  the function \<open>c\<close>. The clock readings of one call are taken as one value \<open>now\<close>.
\<close>

datatype module_default = NoDefault | NotAFunction | Component nat

record runtime =
  babel :: "string \<Rightarrow> js_error + string"
  dynamic_import :: "blob_store \<Rightarrow> string \<Rightarrow> js_error + module_default"

datatype meta_value = MDate nat | MStr string | MStrs "string list"

record ComponentCacheEntry =
  ce_component :: nat
  ce_moduleUrl :: string
  ce_lastUpdated :: nat
  ce_compiledCode :: string

record PanelDefinition =
  pd_id :: string
  pd_name :: string
  pd_jsxCode :: string
  pd_compiledCode :: "string option"
  pd_component :: nat
  pd_metadata :: "(string \<times> meta_value) list"

datatype window_event =
    PanelHmrUpdate string string nat
  | PanelHmrError string string

text \<open>
  A \<open>Map\<close> is an association list in insertion order: \<open>set\<close> is \<open>AList.update\<close>,
  \<open>delete\<close> is \<open>AList.delete\<close>, \<open>get\<close> is \<open>map_of\<close> and \<open>size\<close> is the length.
\<close>

record registry =
  panels :: "(string \<times> PanelDefinition) list"
  componentCache :: "(string \<times> ComponentCacheEntry) list"
  blobs :: blob_store
  events :: "window_event list"

definition new_registry :: registry where
  "new_registry = \<lparr>panels = [], componentCache = [], blobs = no_blobs, events = []\<rparr>"

text \<open>
  The body shared by \<open>loadComponent\<close> and \<open>loadComponentFromUrl\<close>: what the import
  gave is checked, and whatever was thrown is thrown again as a loading failure.
\<close>

definition check_default :: "js_error + module_default \<Rightarrow> js_error + nat" where
  "check_default imported =
     (case (case imported of
              Inl e \<Rightarrow> Inl e
            | Inr NoDefault \<Rightarrow> Inl (mkError ''Module does not export a default component'')
            | Inr NotAFunction \<Rightarrow>
                Inl (mkError ''Exported default is not a valid React component'')
            | Inr (Component c) \<Rightarrow> Inr c) of
        Inl e \<Rightarrow> Inl (mkError (''Component loading failed: '' @ error_to_string e))
      | Inr c \<Rightarrow> Inr c)"

definition import_url :: "string \<Rightarrow> nat \<Rightarrow> string" where
  "import_url url now = url @ ''?t='' @ show_nat now"

definition loadComponent :: "runtime \<Rightarrow> blob_store \<Rightarrow> string \<Rightarrow> nat \<Rightarrow> js_error + nat" where
  "loadComponent rt bs url now = check_default (dynamic_import rt bs (import_url url now))"

definition compilation_failed :: "CompilationResult \<Rightarrow> js_error" where
  "compilation_failed res =
     mkError (''Compilation failed: ''
       @ (case error res of None \<Rightarrow> ''undefined'' | Some e \<Rightarrow> message e))"

definition usable_url :: "CompilationResult \<Rightarrow> string option" where
  "usable_url res =
     (if success res
      then (case moduleUrl res of None \<Rightarrow> None | Some u \<Rightarrow> if u = [] then None else Some u)
      else None)"

text \<open>
  The object spread \<open>{...defaults, ...overrides}\<close>: the properties of the second
  object are written over those of the first, in their order.
\<close>

definition spread :: "(string \<times> meta_value) list \<Rightarrow> (string \<times> meta_value) list
    \<Rightarrow> (string \<times> meta_value) list" where
  "spread defaults overrides = foldl (\<lambda>acc (k, v). AList.update k v acc) defaults overrides"

text \<open>
  \<open>registerPanelFromJSX\<close> and \<open>updatePanel\<close> return the component or throw; the
  registry after the call is returned with either. Registering the component with the
  \<open>FinalizationRegistry\<close> and the logging change nothing of the registry.
\<close>

definition registerPanelFromJSX ::
    "runtime \<Rightarrow> nat \<Rightarrow> registry \<Rightarrow> string \<Rightarrow> string \<Rightarrow> (string \<times> meta_value) list
       \<Rightarrow> (js_error + nat) \<times> registry" where
  "registerPanelFromJSX rt now st ident jsxCode metadata =
     (let (res, bs) = compileComponent (babel rt) (blobs st) jsxCode ident;
          st1 = st\<lparr>blobs := bs\<rparr>
      in case usable_url res of
        None \<Rightarrow> (Inl (compilation_failed res), st1)
      | Some url \<Rightarrow>
          (case loadComponent rt (blobs st1) url now of
             Inl e \<Rightarrow> (Inl e, st1)
           | Inr c \<Rightarrow>
               (Inr c,
                st1\<lparr>panels := AList.update ident
                       \<lparr>pd_id = ident, pd_name = extractComponentName jsxCode,
                        pd_jsxCode = jsxCode, pd_compiledCode = compiled_code res, pd_component = c,
                        pd_metadata = spread
                          [(''createdAt'', MDate now), (''updatedAt'', MDate now),
                           (''creator'', MStr ''ai''),
                           (''dependencies'', MStrs (extractDependencies jsxCode))]
                          metadata\<rparr>
                       (panels st1),
                     componentCache := AList.update ident
                       \<lparr>ce_component = c, ce_moduleUrl = url, ce_lastUpdated = now,
                        ce_compiledCode = (case compiled_code res of None \<Rightarrow> [] | Some g \<Rightarrow> g)\<rparr>
                       (componentCache st1)\<rparr>)))"

definition release_cached :: "(string \<times> ComponentCacheEntry) list \<Rightarrow> string \<Rightarrow> blob_store \<Rightarrow> blob_store" where
  "release_cached cache ident bs =
     (case map_of cache ident of
        None \<Rightarrow> bs
      | Some old \<Rightarrow> if ce_moduleUrl old = [] then bs else cleanupModuleUrl bs (ce_moduleUrl old))"

definition emitHMRUpdate :: "registry \<Rightarrow> string \<Rightarrow> string \<Rightarrow> nat \<Rightarrow> registry" where
  "emitHMRUpdate st panelId jsxCode now =
     st\<lparr>events := events st @ [PanelHmrUpdate panelId jsxCode now]\<rparr>"

definition updatePanel ::
    "runtime \<Rightarrow> nat \<Rightarrow> registry \<Rightarrow> string \<Rightarrow> string \<Rightarrow> (js_error + nat) \<times> registry" where
  "updatePanel rt now st ident jsxCode =
     (case map_of (panels st) ident of
        None \<Rightarrow> (Inl (mkError (''Panel '' @ ident @ '' not found'')), st)
      | Some existingPanel \<Rightarrow>
          (let st1 = st\<lparr>blobs := release_cached (componentCache st) ident (blobs st)\<rparr>;
               (r, st2) = registerPanelFromJSX rt now st1 ident jsxCode
                            (AList.update ''updatedAt'' (MDate now) (pd_metadata existingPanel))
           in case r of
                Inl e \<Rightarrow> (Inl e, st2)
              | Inr c \<Rightarrow> (Inr c, emitHMRUpdate st2 ident jsxCode now)))"

definition getPanel :: "registry \<Rightarrow> string \<Rightarrow> PanelDefinition option" where
  "getPanel st ident = map_of (panels st) ident"

definition getComponent :: "registry \<Rightarrow> string \<Rightarrow> nat option" where
  "getComponent st ident = map_option ce_component (map_of (componentCache st) ident)"

definition listPanels :: "registry \<Rightarrow> string list" where
  "listPanels st = map fst (panels st)"

definition removePanel :: "registry \<Rightarrow> string \<Rightarrow> registry" where
  "removePanel st ident =
     st\<lparr>blobs := release_cached (componentCache st) ident (blobs st),
        panels := AList.delete ident (panels st),
        componentCache := AList.delete ident (componentCache st)\<rparr>"

record RegistryStats =
  totalPanels :: nat
  cachedComponents :: nat
  memoryUsage :: nat

definition getStats :: "registry \<Rightarrow> RegistryStats" where
  "getStats st =
     \<lparr>totalPanels = length (panels st),
      cachedComponents = length (componentCache st),
      memoryUsage = sum_list (map (\<lambda>(k, cache). length (ce_compiledCode cache) * 2)
                                 (componentCache st))\<rparr>"

text \<open>
  A caller's use of the registry: one call after the other, each run to its end, the
  errors caught.
\<close>

datatype registry_op =
    RegisterPanelFromJSX nat string string "(string \<times> meta_value) list"
  | UpdatePanel nat string string
  | RemovePanel string

fun apply_op :: "runtime \<Rightarrow> registry \<Rightarrow> registry_op \<Rightarrow> registry" where
  "apply_op rt st (RegisterPanelFromJSX now ident jsxCode metadata) =
     snd (registerPanelFromJSX rt now st ident jsxCode metadata)"
| "apply_op rt st (UpdatePanel now ident jsxCode) = snd (updatePanel rt now st ident jsxCode)"
| "apply_op rt st (RemovePanel ident) = removePanel st ident"

definition run_ops :: "runtime \<Rightarrow> registry \<Rightarrow> registry_op list \<Rightarrow> registry" where
  "run_ops rt st ops = foldl (apply_op rt) st ops"

section \<open>The hot-replacement manager\<close>

record hmr_manager =
  hmr_componentCache :: "(string \<times> ComponentCacheEntry) list"
  updateQueue :: "string set"
  hmr_blobs :: blob_store
  hmr_events :: "window_event list"
  viteHMR :: bool
  invalidations :: nat

definition new_manager :: "bool \<Rightarrow> hmr_manager" where
  "new_manager hot =
     \<lparr>hmr_componentCache = [], updateQueue = {}, hmr_blobs = no_blobs, hmr_events = [],
      viteHMR = hot, invalidations = 0\<rparr>"

text \<open>
  \<open>updateComponent\<close> is an \<open>async\<close> function: it runs to its first \<open>await\<close>, and
  its caller goes on; it is resumed when the awaited promise settles. A call that has
  not settled is \<open>Suspended\<close> at one of its two \<open>await\<close>s, with what it awaits.
\<close>

datatype outcome = Dropped | Updated | Failed js_error

datatype suspended =
    AwaitCompile string CompilationResult
  | AwaitImport string string CompilationResult "js_error + module_default"

datatype progress = Suspended suspended | Settled outcome

text \<open>
  \<open>window.dispatchEvent\<close> reports what a listener throws and does not throw itself;
  \<open>invalidate\<close> of Vite's API is taken not to throw either. The events dispatched
  are kept in order; the console output is left out.
\<close>

definition triggerHotUpdate :: "hmr_manager \<Rightarrow> string \<Rightarrow> nat \<Rightarrow> hmr_manager" where
  "triggerHotUpdate st panelId now =
     (let st1 = st\<lparr>hmr_events := hmr_events st @ [PanelHmrUpdate panelId [] now]\<rparr>
      in if viteHMR st1 then st1\<lparr>invalidations := Suc (invalidations st1)\<rparr> else st1)"

definition handleUpdateFailure :: "hmr_manager \<Rightarrow> string \<Rightarrow> js_error \<Rightarrow> hmr_manager" where
  "handleUpdateFailure st panelId e =
     st\<lparr>hmr_events := hmr_events st @ [PanelHmrError panelId (message e)]\<rparr>"

text \<open>The \<open>finally\<close> block: it runs however the \<open>try\<close> block is left.\<close>

definition finally_block :: "hmr_manager \<Rightarrow> string \<Rightarrow> hmr_manager" where
  "finally_block st panelId = st\<lparr>updateQueue := updateQueue st - {panelId}\<rparr>"

definition caught :: "hmr_manager \<Rightarrow> string \<Rightarrow> js_error \<Rightarrow> hmr_manager \<times> outcome" where
  "caught st panelId e = (finally_block (handleUpdateFailure st panelId e) panelId, Failed e)"

text \<open>From the call to the first \<open>await\<close>; the compiler has run when it is reached.\<close>

definition updateComponent_begin ::
    "runtime \<Rightarrow> hmr_manager \<Rightarrow> string \<Rightarrow> string \<Rightarrow> hmr_manager \<times> progress" where
  "updateComponent_begin rt st panelId newJSXCode =
     (if panelId \<in> updateQueue st then (finally_block st panelId, Settled Dropped)
      else (let st1 = st\<lparr>updateQueue := insert panelId (updateQueue st)\<rparr>;
                (res, bs) = compileComponent (babel rt) (hmr_blobs st1) newJSXCode panelId
            in (st1\<lparr>hmr_blobs := bs\<rparr>, Suspended (AwaitCompile panelId res))))"

text \<open>From the compiler's result to the \<open>await\<close> of the import.\<close>

definition after_compile ::
    "runtime \<Rightarrow> nat \<Rightarrow> hmr_manager \<Rightarrow> string \<Rightarrow> CompilationResult \<Rightarrow> hmr_manager \<times> progress" where
  "after_compile rt now st panelId res =
     (case usable_url res of
        None \<Rightarrow> (case caught st panelId (compilation_failed res) of (st', out) \<Rightarrow> (st', Settled out))
      | Some url \<Rightarrow>
          (let st1 = st\<lparr>hmr_blobs := release_cached (hmr_componentCache st) panelId (hmr_blobs st)\<rparr>
           in (st1, Suspended (AwaitImport panelId url res
                     (dynamic_import rt (hmr_blobs st1) (import_url url now))))))"

text \<open>From the import's result to the end of the call.\<close>

definition after_import ::
    "nat \<Rightarrow> hmr_manager \<Rightarrow> string \<Rightarrow> string \<Rightarrow> CompilationResult \<Rightarrow> js_error + module_default
       \<Rightarrow> hmr_manager \<times> outcome" where
  "after_import now st panelId url res imported =
     (case check_default imported of
        Inl e \<Rightarrow> caught st panelId e
      | Inr c \<Rightarrow>
          (finally_block
             (triggerHotUpdate
                (st\<lparr>hmr_componentCache := AList.update panelId
                       \<lparr>ce_component = c, ce_moduleUrl = url, ce_lastUpdated = now,
                        ce_compiledCode = (case compiled_code res of None \<Rightarrow> [] | Some g \<Rightarrow> g)\<rparr>
                       (hmr_componentCache st)\<rparr>)
                panelId now)
             panelId,
           Updated))"

definition resume :: "runtime \<Rightarrow> nat \<Rightarrow> hmr_manager \<Rightarrow> suspended \<Rightarrow> hmr_manager \<times> progress" where
  "resume rt now st task =
     (case task of
        AwaitCompile panelId res \<Rightarrow> after_compile rt now st panelId res
      | AwaitImport panelId url res imported \<Rightarrow>
          (case after_import now st panelId url res imported of (st', out) \<Rightarrow> (st', Settled out)))"

text \<open>
  One call run to its end with nothing else running at its \<open>await\<close>s: the call
  begins and is resumed twice.
\<close>

definition settle :: "runtime \<Rightarrow> nat \<Rightarrow> hmr_manager \<times> progress \<Rightarrow> hmr_manager \<times> progress" where
  "settle rt now sp =
     (case sp of
        (st, Settled out) \<Rightarrow> (st, Settled out)
      | (st, Suspended task) \<Rightarrow> resume rt now st task)"

definition updateComponent ::
    "runtime \<Rightarrow> nat \<Rightarrow> hmr_manager \<Rightarrow> string \<Rightarrow> string \<Rightarrow> hmr_manager \<times> progress" where
  "updateComponent rt now st panelId newJSXCode =
     settle rt now (settle rt now (updateComponent_begin rt st panelId newJSXCode))"

definition hmr_getComponent :: "hmr_manager \<Rightarrow> string \<Rightarrow> ComponentCacheEntry option" where
  "hmr_getComponent st panelId = map_of (hmr_componentCache st) panelId"

text \<open>
  Several calls made one after the other before any of them is resumed, and the event
  loop resuming what is suspended, in the order of suspension.
\<close>

fun task_panel :: "suspended \<Rightarrow> string" where
  "task_panel (AwaitCompile panelId res) = panelId"
| "task_panel (AwaitImport panelId url res imported) = panelId"

definition keep_suspended ::
    "suspended list \<Rightarrow> hmr_manager \<times> progress \<Rightarrow> hmr_manager \<times> suspended list" where
  "keep_suspended tasks sp =
     (case sp of
        (st, Suspended task) \<Rightarrow> (st, tasks @ [task])
      | (st, Settled out) \<Rightarrow> (st, tasks))"

definition call_all ::
    "runtime \<Rightarrow> hmr_manager \<times> suspended list \<Rightarrow> (string \<times> string) list
       \<Rightarrow> hmr_manager \<times> suspended list" where
  "call_all rt start calls =
     foldl (\<lambda>(st, tasks) (panelId, newJSXCode).
              keep_suspended tasks (updateComponent_begin rt st panelId newJSXCode))
           start calls"

definition resume_all ::
    "runtime \<Rightarrow> nat \<Rightarrow> hmr_manager \<times> suspended list \<Rightarrow> hmr_manager \<times> suspended list" where
  "resume_all rt now start =
     foldl (\<lambda>(st, tasks) task. keep_suspended tasks (resume rt now st task))
           (fst start, []) (snd start)"

section \<open>Notions used in the statements\<close>

text \<open>A pattern without its capturing groups.\<close>

fun erase :: "re \<Rightarrow> re list" and erases :: "re list \<Rightarrow> re list" where
  "erase (Grp g) = erases g"
| "erase (Mark s) = []"
| "erase (Opt g) = [Opt (erases g)]"
| "erase (Alt a b) = [Alt (erases a) (erases b)]"
| "erase (One c) = [One c]"
| "erase (Star c) = [Star c]"
| "erase (Plus c) = [Plus c]"
| "erase (Lazy c) = [Lazy c]"
| "erase Bol = [Bol]"
| "erase Eos = [Eos]"
| "erase EolM = [EolM]"
| "erase Bnd = [Bnd]"
| "erases [] = []"
| "erases (r # rs) = erase r @ erases rs"

text \<open>
  The warnings of a source as the structure checks, the React checks and the size check
  collect them, in that order.
\<close>

definition caught_warnings :: "string \<Rightarrow> string list" where
  "caught_warnings code =
     fst (validateSizeAndComplexity code
            (validateReactPatterns code
               (snd (validateComponentStructure code [] (snd (validateImports code [] []))))))"

section \<open>Inputs of the examples\<close>

text \<open>A runtime in which Babel and the import of a module always succeed.\<close>

definition demo_runtime :: runtime where
  "demo_runtime =
     \<lparr>babel = (\<lambda>src. Inr ''compiled''), dynamic_import = (\<lambda>bs url. Inr (Component 7))\<rparr>"

definition demo_source :: string where
  "demo_source = ''const X = () => <div>Hi</div>; export default X;''"

text \<open>The source \<open>eval("1+1")\<close>.\<close>

definition eval_source :: string where
  "eval_source = ''eval('' @ [dq] @ ''1+1'' @ [dq] @ '')''"


section \<open>Properties\<close>

subsection \<open>The compiler\<close>

lemma trim_all_space: "list_all is_space s \<Longrightarrow> trim s = []"
proof -
  assume "list_all is_space s"
  then have d: "dropWhile is_space s = []"
    by (induction s) auto
  show "trim s = []"
    unfolding trim_def d by simp
qed

text \<open>
  C7. For every source that is empty or holds white space only, and every component
  name, \<open>compileComponent\<close> returns a failure result (\<open>success\<close> is false, the error is
  the one with the message "JSX code cannot be empty", there is no code and no module
  URL), and the store of object URLs is what it was: no URL was created. The result is
  a value: nothing is thrown to the caller.
\<close>

theorem compileComponent_empty_source:
  assumes "list_all is_space jsxCode"
  shows "compileComponent transform bs jsxCode componentName =
           (\<lparr>success = False, compiled_code = None, moduleUrl = None,
             error = Some (JsError ''Error'' ''JSX code cannot be empty''),
             compile_warnings = None\<rparr>, bs)"
  using assms by (simp add: compileComponent_def trim_all_space compile_failure_def mkError_def)

theorem compileComponent_empty_source_witness:
  "list_all is_space [CHR '' '', nl, CHR 0x09]
   \<and> compileComponent (\<lambda>s. Inr ''compiled'') no_blobs [CHR '' '', nl, CHR 0x09] ''panel-1'' =
       (\<lparr>success = False, compiled_code = None, moduleUrl = None,
         error = Some (JsError ''Error'' ''JSX code cannot be empty''),
         compile_warnings = None\<rparr>, no_blobs)
   \<and> compileComponent (\<lambda>s. Inr ''compiled'') no_blobs [] ''panel-1'' =
       (\<lparr>success = False, compiled_code = None, moduleUrl = None,
         error = Some (JsError ''Error'' ''JSX code cannot be empty''),
         compile_warnings = None\<rparr>, no_blobs)"
proof -
  have ws: "list_all is_space [CHR '' '', nl, CHR 0x09]"
    by (simp add: is_space_def code_unit_def nl_def)
  have e: "list_all is_space []" by simp
  show ?thesis
    using ws compileComponent_empty_source [OF ws, of "\<lambda>s. Inr ''compiled''" no_blobs "''panel-1''"]
      compileComponent_empty_source [OF e, of "\<lambda>s. Inr ''compiled''" no_blobs "''panel-1''"]
    by simp
qed

subsection \<open>Identities\<close>

text \<open>
  C9. The identity is a function of the prompt and of the clock reading alone, and the
  prompt enters through a 32-bit hash only. Two requests made within one millisecond
  get the same identity when their prompts are the same, and also when the prompts
  differ and their hashes collide, as those of "Aa" and "BB" do.
\<close>

theorem generatePanelId_not_unique:
  "generatePanelId ''Aa'' 1700000000000 = ''ai-panel-840-1700000000000''
   \<and> generatePanelId ''BB'' 1700000000000 = ''ai-panel-840-1700000000000''
   \<and> map (\<lambda>(prompt, now). generatePanelId prompt now)
        [(''show a clock'', 1700000000000), (''show a clock'', 1700000000000)] =
      [''ai-panel-d008d6c-1700000000000'', ''ai-panel-d008d6c-1700000000000'']"
  by (simp add: generatePanelId_def simpleHash_def show_nat_def hash_step_def to_int32_def
      code_unit_def digit_char_def)

subsection \<open>The panel registry\<close>

lemma blob_names: "show_nat 0 = ''0''" "show_nat 1 = ''1''" "show_nat (Suc 0) = ''1''"
  by (simp_all add: show_nat_def digit_char_def)

text \<open>
  C3. A failed \<open>registerPanelFromJSX\<close> leaves both maps as they were, but
  \<open>updatePanel\<close> revokes the module URL of the stored entry before it compiles the new
  source. Here a panel is registered and then updated with the empty source: the
  update fails in the compiler, the panel map and the component cache are what they
  were, and the entry still names \<open>blob:0\<close>, which was live before the call and is
  revoked after it.
\<close>

theorem updatePanel_revokes_before_compiling:
  "(let st1 = snd (registerPanelFromJSX demo_runtime 1000 new_registry ''panel-2'' demo_source []);
        (r, st2) = updatePanel demo_runtime 2000 st1 ''panel-2'' []
    in r = Inl (JsError ''Error'' ''Compilation failed: JSX code cannot be empty'')
       \<and> panels st2 = panels st1
       \<and> componentCache st2 = componentCache st1
       \<and> map_option ce_moduleUrl (map_of (componentCache st2) ''panel-2'') = Some ''blob:0''
       \<and> is_live (blobs st1) ''blob:0''
       \<and> \<not> is_live (blobs st2) ''blob:0'')"
  by (simp add: registerPanelFromJSX_def updatePanel_def compileComponent_def demo_runtime_def
      demo_source_def new_registry_def no_blobs_def trim_def is_space_def code_unit_def
      createModuleBlob_def createObjectURL_def blob_names usable_url_def loadComponent_def
      check_default_def release_cached_def cleanupModuleUrl_def revokeObjectURL_def is_live_def
      compilation_failed_def compile_failure_def mkError_def Let_def)

text \<open>A failed \<open>registerPanelFromJSX\<close> writes to neither map.\<close>

lemma registerPanelFromJSX_failure:
  assumes "registerPanelFromJSX rt now st ident src md = (Inl e, st')"
  shows "panels st' = panels st \<and> componentCache st' = componentCache st"
proof -
  obtain res bs where c: "compileComponent (babel rt) (blobs st) src ident = (res, bs)"
    by (cases "compileComponent (babel rt) (blobs st) src ident")
  show ?thesis
  proof (cases "usable_url res")
    case None
    with assms c show ?thesis by (auto simp: registerPanelFromJSX_def)
  next
    case (Some url)
    with assms c show ?thesis
      by (cases "loadComponent rt bs url now") (auto simp: registerPanelFromJSX_def)
  qed
qed

text \<open>The two maps of the registry are written and deleted together.\<close>

lemma registerPanelFromJSX_keys:
  assumes "map fst (panels st) = map fst (componentCache st)"
  shows "map fst (panels (snd (registerPanelFromJSX rt now st ident src md)))
         = map fst (componentCache (snd (registerPanelFromJSX rt now st ident src md)))"
  using assms
  by (simp add: registerPanelFromJSX_def Let_def update_keys
      split: prod.splits option.splits sum.splits)

lemma removePanel_keys:
  assumes "map fst (panels st) = map fst (componentCache st)"
  shows "map fst (panels (removePanel st ident)) = map fst (componentCache (removePanel st ident))"
  using assms by (simp add: removePanel_def delete_keys)

lemma updatePanel_keys:
  assumes "map fst (panels st) = map fst (componentCache st)"
  shows "map fst (panels (snd (updatePanel rt now st ident src)))
         = map fst (componentCache (snd (updatePanel rt now st ident src)))"
proof (cases "map_of (panels st) ident")
  case None
  then show ?thesis using assms by (simp add: updatePanel_def)
next
  case (Some ex)
  let ?st1 = "st\<lparr>blobs := release_cached (componentCache st) ident (blobs st)\<rparr>"
  let ?md = "AList.update ''updatedAt'' (MDate now) (pd_metadata ex)"
  have k: "map fst (panels ?st1) = map fst (componentCache ?st1)" using assms by simp
  obtain r st2 where eq: "registerPanelFromJSX rt now ?st1 ident src ?md = (r, st2)"
    by (cases "registerPanelFromJSX rt now ?st1 ident src ?md")
  from registerPanelFromJSX_keys [OF k, of rt now ident src ?md] eq
  have k2: "map fst (panels st2) = map fst (componentCache st2)" by simp
  show ?thesis
    using Some eq k2 by (cases r) (simp_all add: updatePanel_def Let_def emitHMRUpdate_def)
qed

lemma apply_op_keys:
  assumes "map fst (panels st) = map fst (componentCache st)"
  shows "map fst (panels (apply_op rt st op)) = map fst (componentCache (apply_op rt st op))"
  using assms
  by (cases op) (simp_all add: registerPanelFromJSX_keys updatePanel_keys removePanel_keys)

lemma run_ops_keys:
  assumes "map fst (panels st) = map fst (componentCache st)"
  shows "map fst (panels (run_ops rt st ops)) = map fst (componentCache (run_ops rt st ops))"
  using assms unfolding run_ops_def
  by (induction ops arbitrary: st) (simp_all add: apply_op_keys)

lemma getPanel_defined: "(getPanel st k \<noteq> None) = (k \<in> set (map fst (panels st)))"
  by (simp add: getPanel_def map_of_eq_None_iff)

lemma getComponent_defined:
  "(getComponent st k \<noteq> None) = (k \<in> set (map fst (componentCache st)))"
  by (simp add: getComponent_def map_of_eq_None_iff)

text \<open>
  C10. After any sequence of \<open>registerPanelFromJSX\<close>, \<open>updatePanel\<close> and
  \<open>removePanel\<close> calls on a new registry, whatever Babel and the module loader do and
  whether the calls succeed or fail, \<open>getPanel\<close> is defined for an identity exactly
  when \<open>getComponent\<close> is, the statistics report as many panels as cached components,
  and the two maps list the same identities in the same order.
\<close>

theorem registry_stores_in_step:
  "(getPanel (run_ops rt new_registry ops) ident \<noteq> None)
     = (getComponent (run_ops rt new_registry ops) ident \<noteq> None)
   \<and> totalPanels (getStats (run_ops rt new_registry ops))
     = cachedComponents (getStats (run_ops rt new_registry ops))
   \<and> listPanels (run_ops rt new_registry ops)
     = map fst (componentCache (run_ops rt new_registry ops))"
proof -
  have "map fst (panels new_registry) = map fst (componentCache new_registry)"
    by (simp add: new_registry_def)
  from run_ops_keys [OF this, of rt ops]
  have k: "map fst (panels (run_ops rt new_registry ops))
           = map fst (componentCache (run_ops rt new_registry ops))" .
  have l: "length (panels (run_ops rt new_registry ops))
           = length (componentCache (run_ops rt new_registry ops))"
    using arg_cong [OF k, of length] by simp
  show ?thesis
    unfolding getPanel_defined getComponent_defined
    using k l by (simp add: getStats_def listPanels_def)
qed

subsection \<open>The hot-replacement manager\<close>

text \<open>
  C4. A call of \<open>updateComponent\<close> that runs to its end always settles: nothing is
  thrown to the caller. When it settles as failed, with the error \<open>e\<close>, the events
  dispatched during the call are exactly one \<open>panel-hmr-error\<close> event, which carries
  the identity and the message of \<open>e\<close>; the cache is what it was before the call, so
  \<open>getComponent\<close> answers as before; and the identity is not marked in flight.
\<close>

theorem updateComponent_failure:
  "\<exists>st' out. updateComponent rt now st panelId newJSXCode = (st', Settled out)
     \<and> (\<forall>e. out = Failed e \<longrightarrow>
            hmr_events st' = hmr_events st @ [PanelHmrError panelId (message e)]
          \<and> hmr_componentCache st' = hmr_componentCache st
          \<and> hmr_getComponent st' panelId = hmr_getComponent st panelId
          \<and> panelId \<notin> updateQueue st')"
  by (auto simp: updateComponent_def settle_def updateComponent_begin_def resume_def
      after_compile_def after_import_def caught_def finally_block_def handleUpdateFailure_def
      triggerHotUpdate_def hmr_getComponent_def Let_def
      split: prod.splits option.splits sum.splits if_splits)

theorem updateComponent_failure_witness:
  "\<exists>st'. updateComponent demo_runtime 6
            (fst (updateComponent demo_runtime 5 (new_manager False) ''panel-3'' demo_source))
            ''panel-3'' [] =
          (st', Settled (Failed (JsError ''Error'' ''Compilation failed: JSX code cannot be empty'')))
     \<and> hmr_events st' =
          [PanelHmrUpdate ''panel-3'' [] 5,
           PanelHmrError ''panel-3'' ''Compilation failed: JSX code cannot be empty'']
     \<and> map_option ce_moduleUrl (hmr_getComponent st' ''panel-3'') = Some ''blob:0''"
proof -
  let ?st = "fst (updateComponent demo_runtime 5 (new_manager False) ''panel-3'' demo_source)"
  let ?e = "JsError ''Error'' ''Compilation failed: JSX code cannot be empty''"
  have before: "hmr_events ?st = [PanelHmrUpdate ''panel-3'' [] 5]
      \<and> map_option ce_moduleUrl (hmr_getComponent ?st ''panel-3'') = Some ''blob:0''
      \<and> ''panel-3'' \<notin> updateQueue ?st"
    by (simp add: updateComponent_def settle_def updateComponent_begin_def resume_def
        after_compile_def after_import_def finally_block_def triggerHotUpdate_def
        demo_runtime_def demo_source_def new_manager_def compileComponent_def trim_def
        is_space_def code_unit_def createModuleBlob_def createObjectURL_def no_blobs_def
        blob_names usable_url_def check_default_def release_cached_def hmr_getComponent_def
        Let_def)
  have failed: "snd (updateComponent demo_runtime 6 ?st ''panel-3'' []) = Settled (Failed ?e)"
    using before
    by (simp add: updateComponent_def settle_def updateComponent_begin_def resume_def
        after_compile_def caught_def compileComponent_def trim_def usable_url_def
        compile_failure_def compilation_failed_def mkError_def Let_def)
  from updateComponent_failure [of demo_runtime 6 ?st "''panel-3''" "[]"]
  obtain st' out where
    eq: "updateComponent demo_runtime 6 ?st ''panel-3'' [] = (st', Settled out)" and
    imp: "\<forall>e. out = Failed e \<longrightarrow>
            hmr_events st' = hmr_events ?st @ [PanelHmrError ''panel-3'' (message e)]
          \<and> hmr_componentCache st' = hmr_componentCache ?st
          \<and> hmr_getComponent st' ''panel-3'' = hmr_getComponent ?st ''panel-3''
          \<and> ''panel-3'' \<notin> updateQueue st'"
    by blast
  from eq failed have out: "out = Failed ?e" by simp
  with imp have "hmr_events st' = hmr_events ?st @ [PanelHmrError ''panel-3'' (message ?e)]
      \<and> hmr_getComponent st' ''panel-3'' = hmr_getComponent ?st ''panel-3''"
    by blast
  with before eq out show ?thesis by simp
qed

text \<open>A call for an identity that is marked in flight does nothing but remove the mark.\<close>

lemma updateComponent_begin_dropped:
  assumes "panelId \<in> updateQueue st"
  shows "updateComponent_begin rt st panelId newJSXCode =
           (st\<lparr>updateQueue := updateQueue st - {panelId}\<rparr>, Settled Dropped)"
  using assms by (simp add: updateComponent_begin_def finally_block_def)

text \<open>
  C5. A call made while another call for the same identity is suspended is dropped:
  it compiles nothing, writes nothing to the cache and dispatches no event. But it
  returns from inside the \<open>try\<close> block, so the \<open>finally\<close> block runs and removes
  the mark that the suspended call had set. Three calls for one identity are made
  here before any is resumed: after the second the identity is not marked, the third
  is taken, two calls are in flight for the identity, both are applied when they are
  resumed, and the module URL that the first one stored is overwritten while it is
  still live.
\<close>

theorem updateComponent_marker_cleared_by_dropped_call:
  "(let two = call_all demo_runtime (new_manager False, [])
                [(''panel-3'', ''a''), (''panel-3'', ''b'')];
        three = call_all demo_runtime two [(''panel-3'', ''c'')];
        done = resume_all demo_runtime 20 (resume_all demo_runtime 10 three)
    in map task_panel (snd two) = [''panel-3'']
       \<and> updateQueue (fst two) = {}
       \<and> map task_panel (snd three) = [''panel-3'', ''panel-3'']
       \<and> snd done = []
       \<and> hmr_events (fst done) =
           [PanelHmrUpdate ''panel-3'' [] 20, PanelHmrUpdate ''panel-3'' [] 20]
       \<and> map_option ce_moduleUrl (hmr_getComponent (fst done) ''panel-3'') = Some ''blob:1''
       \<and> is_live (hmr_blobs (fst done)) ''blob:0'')"
  by (simp add: call_all_def resume_all_def keep_suspended_def updateComponent_begin_def
      resume_def after_compile_def after_import_def finally_block_def triggerHotUpdate_def
      demo_runtime_def new_manager_def compileComponent_def trim_def is_space_def code_unit_def
      createModuleBlob_def createObjectURL_def no_blobs_def blob_names usable_url_def
      check_default_def release_cached_def cleanupModuleUrl_def revokeObjectURL_def
      hmr_getComponent_def is_live_def Let_def)

subsection \<open>The code validator\<close>

text \<open>
  The size check ends by building the pattern of the keyword \<open>?\<close>, which throws, so
  every call of \<open>validateJSX\<close> ends in its \<open>catch\<close> block.
\<close>

lemma validateSizeAndComplexity_throws:
  "snd (validateSizeAndComplexity code warns) = Some (nothing_to_repeat ''?'')"
  by (simp add: validateSizeAndComplexity_def complexityKeywords_def)

lemma validateSizeAndComplexity_warnings:
  "fst (validateSizeAndComplexity code warns) =
     warns @ (if length (split_lines code) > 200
              then [''Component is quite large - consider breaking it into smaller components'']
              else [])"
  by (simp add: validateSizeAndComplexity_def complexityKeywords_def)

lemma validateImports_warnings: "snd (validateImports code errs warns) = snd (validateImports code errs' warns)"
  by (simp add: validateImports_def Let_def)

lemma validateComponentStructure_warnings:
  "snd (validateComponentStructure code errs warns) = snd (validateComponentStructure code errs' warns)"
  by (simp add: validateComponentStructure_def Let_def)

lemma validateJSX_unfold:
  "validateJSX st code =
     (\<lparr>isValid = False,
       errors = [''Validation error: '' @ error_to_string (nothing_to_repeat ''?'')],
       warnings = caught_warnings code, sanitizedCode = None\<rparr>,
      snd (checkForbiddenPatterns st code (validateBasicStructure code [])))"
proof -
  obtain e2 st' where c: "checkForbiddenPatterns st code (validateBasicStructure code []) = (e2, st')"
    by (cases "checkForbiddenPatterns st code (validateBasicStructure code [])")
  obtain e3 w1 where i: "validateImports code e2 [] = (e3, w1)"
    by (cases "validateImports code e2 []")
  obtain e4 w2 where s: "validateComponentStructure code e3 w1 = (e4, w2)"
    by (cases "validateComponentStructure code e3 w1")
  obtain w4 thrown where z: "validateSizeAndComplexity code (validateReactPatterns code w2) = (w4, thrown)"
    by (cases "validateSizeAndComplexity code (validateReactPatterns code w2)")
  from z validateSizeAndComplexity_throws [of code "validateReactPatterns code w2"]
  have t: "thrown = Some (nothing_to_repeat ''?'')" by simp
  have r: "validateJSX st code =
     (\<lparr>isValid = False,
       errors = [''Validation error: '' @ error_to_string (nothing_to_repeat ''?'')],
       warnings = w4, sanitizedCode = None\<rparr>, st')"
    using c i s z t by (simp add: validateJSX_def)
  from i validateImports_warnings [of code e2 "[]" "[]"]
  have w1: "w1 = snd (validateImports code [] [])" by simp
  from s validateComponentStructure_warnings [of code e3 w1 "[]"]
  have w2: "w2 = snd (validateComponentStructure code [] w1)" by simp
  from z have "w4 = fst (validateSizeAndComplexity code (validateReactPatterns code w2))"
    by simp
  then have "w4 = caught_warnings code"
    unfolding caught_warnings_def w2 w1 .
  with r c show ?thesis by simp
qed

lemma validateJSX_result:
  "fst (validateJSX st code) =
     \<lparr>isValid = False,
      errors = [''Validation error: '' @ error_to_string (nothing_to_repeat ''?'')],
      warnings = caught_warnings code, sanitizedCode = None\<rparr>"
  by (simp add: validateJSX_unfold)

lemma check_patterns_state:
  "snd (check_patterns ps st code errs) = snd (check_patterns ps st code errs')"
proof (induction ps arbitrary: st errs errs')
  case Nil
  show ?case by simp
next
  case (Cons a ps)
  obtain src rs where a: "a = (src, rs)" by (cases a)
  obtain found li where t: "test_global rs code (case st of [] \<Rightarrow> 0 | l # ls \<Rightarrow> l) = (found, li)"
    by (cases "test_global rs code (case st of [] \<Rightarrow> 0 | l # ls \<Rightarrow> l)")
  let ?e1 = "if found then errs @ [''Forbidden pattern detected: '' @ src] else errs"
  let ?e2 = "if found then errs' @ [''Forbidden pattern detected: '' @ src] else errs'"
  have "snd (check_patterns (a # ps) st code errs) = li # snd (check_patterns ps (tl st) code ?e1)"
    by (simp add: a t split: prod.splits)
  moreover
  have "snd (check_patterns (a # ps) st code errs') = li # snd (check_patterns ps (tl st) code ?e2)"
    by (simp add: a t split: prod.splits)
  moreover
  have "snd (check_patterns ps (tl st) code ?e1) = snd (check_patterns ps (tl st) code ?e2)"
    by (rule Cons.IH)
  ultimately show ?case by simp
qed

lemma validateJSX_state: "snd (validateJSX st code) = snd (checkForbiddenPatterns st code [])"
  unfolding validateJSX_unfold checkForbiddenPatterns_def
  using check_patterns_state [of forbiddenPatterns st code "validateBasicStructure code []" "[]"]
  by simp

lemma validateJSX_never_accepts: "isValid (fst (validateJSX st code)) = False"
  by (simp add: validateJSX_result)

text \<open>
  C1. On a new validator, \<open>checkForbiddenPatterns\<close> does find the \<open>eval\<close> pattern in
  \<open>eval("1+1")\<close> and adds its error. But \<open>validateJSX\<close> then throws in the size
  check and returns the error of its \<open>catch\<close> block alone: the result rejects, and
  its error list does not name the pattern. And the pattern's \<open>lastIndex\<close> is left
  at 5 by the call, so the deny-list check of the next call on the same source starts
  behind the match and finds nothing.
\<close>

theorem validateJSX_loses_forbidden_pattern:
  "fst (checkForbiddenPatterns new_validator eval_source []) =
     [''Forbidden pattern detected: eval'' @ [bsl] @ ''s*'' @ [bsl] @ ''('']
   \<and> isValid (fst (validateJSX new_validator eval_source)) = False
   \<and> errors (fst (validateJSX new_validator eval_source)) =
       [''Validation error: SyntaxError: Invalid regular expression: /'' @ [bsl] @ ''b?''
          @ [bsl] @ ''b/g: Nothing to repeat'']
   \<and> snd (validateJSX new_validator eval_source) = 5 # replicate 36 0
   \<and> fst (checkForbiddenPatterns (snd (validateJSX new_validator eval_source)) eval_source [])
       = []"
proof -
  have a: "checkForbiddenPatterns new_validator eval_source [] =
     ([''Forbidden pattern detected: eval'' @ [bsl] @ ''s*'' @ [bsl] @ ''(''],
      5 # replicate 36 0)"
    by code_simp
  have b: "fst (checkForbiddenPatterns (5 # replicate 36 0) eval_source []) = []"
    by code_simp
  show ?thesis
    using b by (simp add: a validateJSX_result validateJSX_state nothing_to_repeat_def)
qed

text \<open>
  C2. For every state of the validator and every source, a second call of
  \<open>validateJSX\<close> on the same source, on the state the first call left, returns the
  result of the first: the same \<open>isValid\<close>, the same errors, the same warnings and the
  same \<open>sanitizedCode\<close>.
\<close>

theorem validateJSX_deterministic:
  "fst (validateJSX (snd (validateJSX st code)) code) = fst (validateJSX st code)"
  by (simp add: validateJSX_result)

lemma demo_source_required:
  "map (\<lambda>(src, rs). test rs demo_source) requiredPatterns = [False, True]"
  by code_simp

lemma demo_source_counts:
  "length (trim demo_source) = 48" "length demo_source = 48"
  "count_char (CHR ''{'') demo_source = 0" "count_char (CHR ''}'') demo_source = 0"
  "paren_scan demo_source 0 = (0, False)"
  by (simp_all add: demo_source_def trim_def is_space_def code_unit_def count_char_def)

text \<open>
  C6, as stated: the source is not accepted, its error list is not empty and there is
  no sanitized code.
\<close>

theorem validateJSX_example_not_accepted:
  "\<not> isValid (fst (validateJSX new_validator demo_source))
   \<and> errors (fst (validateJSX new_validator demo_source)) \<noteq> []
   \<and> sanitizedCode (fst (validateJSX new_validator demo_source)) = None"
  by (simp add: validateJSX_result)

text \<open>
  C6, as amended: in every state of the validator \<open>validateJSX\<close> rejects the source
  \<open>const X = () => <div>Hi</div>; export default X;\<close> and returns no sanitized code.
  Of the checks that add errors, the deny-list of a new validator adds none, the
  structure check adds that the required pattern \<open>import\s+React\<close> is missing, and
  the component check adds that the component must return JSX (the source has no
  \<open>return\<close>).
\<close>

theorem validateJSX_rejects_example:
  "isValid (fst (validateJSX st demo_source)) = False
   \<and> sanitizedCode (fst (validateJSX st demo_source)) = None
   \<and> validateBasicStructure demo_source [] =
       [''Missing required pattern: import'' @ [bsl] @ ''s+React'']
   \<and> fst (checkForbiddenPatterns new_validator demo_source []) = []
   \<and> fst (validateComponentStructure demo_source [] []) = [''Component must return JSX'']"
proof -
  have a: "validateBasicStructure demo_source [] =
       [''Missing required pattern: import'' @ [bsl] @ ''s+React'']"
    using demo_source_required
    by (simp add: validateBasicStructure_def demo_source_counts requiredPatterns_def)
  have b: "fst (checkForbiddenPatterns new_validator demo_source []) = []"
    by code_simp
  have c: "fst (validateComponentStructure demo_source [] []) = [''Component must return JSX'']"
    by code_simp
  show ?thesis
    using a b c by (simp add: validateJSX_result)
qed

text \<open>
  The sanitizer looks for the export with a pattern that has a group and replaces with
  the same pattern without it; the two find the same place.
\<close>

lemma erases_append: "erases (xs @ ys) = erases xs @ erases ys"
  by (induction xs) simp_all

lemma same_rest: "map_option snd a = map_option snd b \<Longrightarrow> (a = None) = (b = None)"
  by (cases a; cases b) simp_all

lemma first_of:
  assumes "map_option snd a1 = map_option snd b1" "map_option snd a2 = map_option snd b2"
  shows "map_option snd (case a1 of Some r \<Rightarrow> Some r | None \<Rightarrow> a2)
       = map_option snd (case b1 of Some r \<Rightarrow> Some r | None \<Rightarrow> b2)"
  using assms by (cases a1; cases b1) simp_all

lemma first_of_cond:
  assumes "map_option snd a1 = map_option snd b1"
    "b1 = None \<Longrightarrow> map_option snd a2 = map_option snd b2"
  shows "map_option snd (case a1 of Some r \<Rightarrow> Some r | None \<Rightarrow> a2)
       = map_option snd (case b1 of Some r \<Rightarrow> Some r | None \<Rightarrow> b2)"
  using assms by (cases a1; cases b1) simp_all

lemma m_erases:
  "map_option snd (m (erases rs) p s caps') = map_option snd (m rs p s caps)"
proof (induction rs p s caps arbitrary: caps' rule: m.induct)
  case (1 p s caps)
  show ?case by simp
next
  case (2 c rs p caps)
  show ?case by simp
next
  case (3 c rs p x xs caps)
  then show ?case by simp
next
  case (4 c rs p caps)
  then show ?case by simp
next
  case (5 c rs p x xs caps)
  show ?case
  proof (cases "cls_match c x")
    case True
    have a: "map_option snd (m (Star c # erases rs) (Some x) xs caps')
           = map_option snd (m (Star c # rs) (Some x) xs caps)"
      using "5.IH"(1) [OF True, of caps'] by simp
    have b: "m (Star c # rs) (Some x) xs caps = None \<Longrightarrow>
             map_option snd (m (erases rs) p (x # xs) caps') = map_option snd (m rs p (x # xs) caps)"
      using "5.IH"(2) [OF True] by simp
    from first_of_cond [OF a b] True show ?thesis by simp
  next
    case False
    with "5.IH"(3) show ?thesis by simp
  qed
next
  case (6 c rs p caps)
  show ?case by simp
next
  case (7 c rs p x xs caps)
  show ?case
  proof (cases "cls_match c x")
    case True
    from "7.IH" [OF True, of caps'] True show ?thesis by simp
  next
    case False
    then show ?thesis by simp
  qed
next
  case (8 c rs p caps)
  then show ?case by simp
next
  case (9 c rs p x xs caps)
  have a: "map_option snd (m (erases rs) p (x # xs) caps') = map_option snd (m rs p (x # xs) caps)"
    by (rule "9.IH"(1))
  show ?case
  proof (cases "cls_match c x")
    case True
    have b: "m rs p (x # xs) caps = None \<Longrightarrow>
             map_option snd (m (Lazy c # erases rs) (Some x) xs caps')
           = map_option snd (m (Lazy c # rs) (Some x) xs caps)"
      using "9.IH"(2) [OF _ True, of caps'] by simp
    from first_of_cond [OF a b] True show ?thesis by simp
  next
    case False
    from first_of [OF a, of None None] False show ?thesis by simp
  qed
next
  case (10 g rs p s caps)
  have a: "map_option snd (m (erases g @ erases rs) p s caps') = map_option snd (m (g @ rs) p s caps)"
    using "10.IH"(1) [of caps'] by (simp only: erases_append)
  have b: "m (g @ rs) p s caps = None \<Longrightarrow>
           map_option snd (m (erases rs) p s caps') = map_option snd (m rs p s caps)"
    by (rule "10.IH"(2))
  have e: "erases (Opt g # rs) = Opt (erases g) # erases rs" by simp
  show ?case
    unfolding e m.simps by (rule first_of_cond [OF a b])
next
  case (11 a b rs p s caps)
  have x: "map_option snd (m (erases a @ erases rs) p s caps') = map_option snd (m (a @ rs) p s caps)"
    using "11.IH"(1) [of caps'] by (simp only: erases_append)
  have y: "m (a @ rs) p s caps = None \<Longrightarrow>
           map_option snd (m (erases b @ erases rs) p s caps') = map_option snd (m (b @ rs) p s caps)"
    using "11.IH"(2) [of caps'] by (simp only: erases_append)
  have e: "erases (Alt a b # rs) = Alt (erases a) (erases b) # erases rs" by simp
  show ?case
    unfolding e m.simps by (rule first_of_cond [OF x y])
next
  case (12 g rs p s caps)
  have e: "erases (Grp g # rs) = erases (g @ Mark s # rs)"
    by (simp add: erases_append)
  show ?case
    unfolding e m.simps by (rule "12.IH")
next
  case (13 s0 rs p s caps)
  have e: "erases (Mark s0 # rs) = erases rs" by simp
  show ?case
    unfolding e m.simps by (rule "13.IH")
next
  case (14 rs p s caps)
  then show ?case by simp
next
  case (15 rs p s caps)
  then show ?case by simp
next
  case (16 rs p s caps)
  then show ?case by simp
next
  case (17 rs p s caps)
  then show ?case by simp
qed

lemma find_match_erases:
  "map_option (\<lambda>(i, e, c). (i, e)) (find_match (erases rs) p s i0)
   = map_option (\<lambda>(i, e, c). (i, e)) (find_match rs p s i0)"
proof (induction s arbitrary: p i0)
  case Nil
  from m_erases [of rs p "[]" "[]" "[]"] show ?case
    by (subst find_match.simps, subst (2) find_match.simps)
       (cases "m (erases rs) p [] []"; cases "m rs p [] []"; auto)
next
  case (Cons x xs)
  from m_erases [of rs p "x # xs" "[]" "[]"] Cons.IH [of "Some x" "Suc i0"] show ?case
    by (subst find_match.simps, subst (2) find_match.simps)
       (cases "m (erases rs) p (x # xs) []"; cases "m rs p (x # xs) []"; auto)
qed

lemma regexp_exec_erases:
  "map_option (\<lambda>(i, e, c). (i, e)) (regexp_exec (erases rs) s li)
   = map_option (\<lambda>(i, e, c). (i, e)) (regexp_exec rs s li)"
  by (simp add: regexp_exec_def find_match_erases)

lemma exportReplace_erases: "exportReplace_re = erases exportMatch_re"
  by (simp add: exportReplace_re_def exportMatch_re_def lit_def erases_append)

lemma starts_with_append: "starts_with (t @ ys) t"
  by (induction t) simp_all

lemma str_includes_prefix: "str_includes (t @ ys) t"
  using starts_with_append [of t ys] by (cases "t @ ys") auto

lemma str_includes_append: "str_includes (xs @ t @ ys) t"
  by (induction xs) (simp_all add: str_includes_prefix)

lemma wrapper_includes: "str_includes (wrapper n) n"
proof -
  have "\<exists>ys. wrapper n = ''const Original'' @ n @ ys"
    by (simp add: wrapper_def)
  then obtain ys where "wrapper n = ''const Original'' @ n @ ys" ..
  then show ?thesis by (simp only: str_includes_append)
qed

lemma wrapWithErrorBoundary_cases:
  "(case first_capture exportMatch_re code of
      None \<Rightarrow> wrapWithErrorBoundary code = code
    | Some componentName \<Rightarrow>
        (\<exists>i e caps. regexp_exec exportMatch_re code 0 = Some (i, e, caps) \<and> i \<le> e
           \<and> wrapWithErrorBoundary code = take i code @ wrapper componentName @ drop e code))"
proof (cases "first_capture exportMatch_re code")
  case None
  then show ?thesis by (simp add: wrapWithErrorBoundary_def)
next
  case (Some n)
  then obtain i e caps where f: "regexp_exec exportMatch_re code 0 = Some (i, e, caps)"
    by (auto simp: first_capture_def split: option.splits)
  with regexp_exec_erases [of exportMatch_re code 0]
  obtain caps' where g: "regexp_exec exportReplace_re code 0 = Some (i, e, caps')"
    by (cases "regexp_exec (erases exportMatch_re) code 0") (auto simp: exportReplace_erases)
  from regexp_exec_bounds [OF f] have "i \<le> e" by simp
  with Some f g show ?thesis
    by (auto simp: wrapWithErrorBoundary_def replace_first_def)
qed

text \<open>
  What the sanitizer does to any source. When its pattern finds nothing, the output is
  the source, behind the two safety imports unless the source has the second of them.
  When the pattern matches from \<open>i\<close> to \<open>e\<close>, the output is the source up to \<open>i\<close>,
  the wrapper around the captured word, and the source from \<open>e\<close> on: the text
  outside the match is kept as it is, the text of the match is gone.
\<close>

lemma sanitizeCode_exact:
  "(case first_capture exportMatch_re code of
      None \<Rightarrow> sanitizeCode code = code \<or> sanitizeCode code = safety_imports @ code
    | Some componentName \<Rightarrow>
        (\<exists>i e caps. regexp_exec exportMatch_re code 0 = Some (i, e, caps) \<and> i \<le> e
           \<and> (sanitizeCode code = take i code @ wrapper componentName @ drop e code
              \<or> sanitizeCode code
                  = safety_imports @ take i code @ wrapper componentName @ drop e code)))"
proof (cases "first_capture exportMatch_re code")
  case None
  with wrapWithErrorBoundary_cases [of code] have w: "wrapWithErrorBoundary code = code" by simp
  have "sanitizeCode code = code \<or> sanitizeCode code = safety_imports @ code"
    by (simp add: sanitizeCode_def w)
  with None show ?thesis by simp
next
  case (Some n)
  with wrapWithErrorBoundary_cases [of code]
  obtain i e caps where f: "regexp_exec exportMatch_re code 0 = Some (i, e, caps)"
    and ie: "i \<le> e"
    and w: "wrapWithErrorBoundary code = take i code @ wrapper n @ drop e code"
    by auto
  have "sanitizeCode code = wrapWithErrorBoundary code
      \<or> sanitizeCode code = safety_imports @ wrapWithErrorBoundary code"
    by (simp add: sanitizeCode_def Let_def)
  then have "sanitizeCode code = take i code @ wrapper n @ drop e code
      \<or> sanitizeCode code = safety_imports @ take i code @ wrapper n @ drop e code"
    unfolding w .
  with f ie have "\<exists>i e caps. regexp_exec exportMatch_re code 0 = Some (i, e, caps) \<and> i \<le> e
           \<and> (sanitizeCode code = take i code @ wrapper n @ drop e code
              \<or> sanitizeCode code = safety_imports @ take i code @ wrapper n @ drop e code)"
    by blast
  with Some show ?thesis by simp
qed




end
